theory Spec2Isabelle
  imports Complex_Main "HOL-Library.AList"
begin

section \<open>Conventions of the embedding\<close>

text \<open>
  The analytics engine is Python over pandas frames.  A frame is a list of rows (one
  \<^theory_text>\<open>record\<close> per row, the columns an analyser reads as fields), a Python
  float is a \<^typ>\<open>real\<close>, and a missing value (\<open>None\<close>, or \<open>NaN\<close> in a frame column)
  is \<open>None\<close> of an option type: every comparison with a missing value is false, as it is
  for \<open>NaN\<close> in Python.  Dictionaries whose order matters are association lists.
  Leading underscores of private Python names are dropped.
\<close>

datatype py_error = ValueError | StopIteration

text \<open>
  Where a value is read from a dictionary, \<open>None\<close> and \<open>NaN\<close> are different values: the
  test \<open>is not None\<close> lets a \<open>NaN\<close> through.  Such a value is a \<open>pyfloat option\<close>:
  \<open>None\<close>, \<open>Some NaN\<close> or \<open>Some (Fin x)\<close>.  Every comparison with \<open>NaN\<close> is false and
  every difference with \<open>NaN\<close> is \<open>NaN\<close>.
\<close>

datatype pyfloat = Fin real | NaN

definition fge :: "pyfloat \<Rightarrow> real \<Rightarrow> bool" where
  "fge x c = (case x of NaN \<Rightarrow> False | Fin v \<Rightarrow> v \<ge> c)"

definition flt :: "pyfloat \<Rightarrow> real \<Rightarrow> bool" where
  "flt x c = (case x of NaN \<Rightarrow> False | Fin v \<Rightarrow> v < c)"

definition fsub :: "pyfloat \<Rightarrow> pyfloat \<Rightarrow> pyfloat" where
  "fsub x y = (case x of NaN \<Rightarrow> NaN
               | Fin a \<Rightarrow> (case y of NaN \<Rightarrow> NaN | Fin b \<Rightarrow> Fin (a - b)))"

section \<open>Activity classifier (activity.py)\<close>

definition SEDENTARY_ENERGY :: real where "SEDENTARY_ENERGY = 50"
definition LIGHT_ENERGY :: real where "LIGHT_ENERGY = 200"
definition MODERATE_ENERGY :: real where "MODERATE_ENERGY = 600"

definition classify_epoch :: "real \<Rightarrow> real \<Rightarrow> string" where
  "classify_epoch energy hr =
     (if energy < SEDENTARY_ENERGY \<and> hr < 80 then ''sedentary''
      else if energy < LIGHT_ENERGY then ''light''
      else if energy < MODERATE_ENERGY \<or> (80 \<le> hr \<and> hr < 100) then ''moderate''
      else ''vigorous'')"

section \<open>Readiness tiers (readiness.py)\<close>

record tier =
  name :: string
  color :: string
  rmssd_min :: real
  ready_min :: real

definition TIERS :: "tier list" where
  "TIERS =
    [\<lparr>name = ''Peak'', color = ''green'', rmssd_min = 90, ready_min = 175\<rparr>,
     \<lparr>name = ''Good'', color = ''blue'', rmssd_min = 75, ready_min = 155\<rparr>,
     \<lparr>name = ''Moderate'', color = ''yellow'', rmssd_min = 55, ready_min = 140\<rparr>,
     \<lparr>name = ''Low'', color = ''orange'', rmssd_min = 40, ready_min = 130\<rparr>,
     \<lparr>name = ''Recovery'', color = ''red'', rmssd_min = 0, ready_min = 0\<rparr>]"

text \<open>\<open>xs.index(x)\<close>: the position of the first occurrence, \<open>ValueError\<close> when absent.\<close>

fun list_index :: "'a list \<Rightarrow> 'a \<Rightarrow> py_error + nat" where
  "list_index [] x = Inl ValueError"
| "list_index (y # ys) x =
     (if y = x then Inr 0
      else case list_index ys x of Inl e \<Rightarrow> Inl e | Inr i \<Rightarrow> Inr (Suc i))"

text \<open>The self-report cap \<open>sr_cap\<close> computed at the head of \<open>_classify_tier\<close>.\<close>

definition sr_cap :: "real option \<Rightarrow> real option \<Rightarrow> string option" where
  "sr_cap stress sleepiness =
     (case stress of None \<Rightarrow> None
      | Some s \<Rightarrow>
        (case sleepiness of None \<Rightarrow> None
         | Some z \<Rightarrow>
           if s > 7 \<and> z > 7 then Some ''Recovery''
           else if s > 5 \<and> z > 5 then Some ''Low''
           else None))"

text \<open>The \<open>for t in _TIERS\<close> loop: the first tier whose floors are met, else the
  initial value \<open>Recovery\<close>.\<close>

fun tier_scan :: "tier list \<Rightarrow> pyfloat \<Rightarrow> real option \<Rightarrow> string" where
  "tier_scan [] ready_score rmssd_pct = ''Recovery''"
| "tier_scan (t # ts) ready_score rmssd_pct =
     (if (case rmssd_pct of
            Some p \<Rightarrow> p \<ge> rmssd_min t \<and> fge ready_score (ready_min t)
          | None \<Rightarrow> fge ready_score (ready_min t))
      then name t
      else tier_scan ts ready_score rmssd_pct)"

definition base_tier :: "pyfloat option \<Rightarrow> real option \<Rightarrow> string" where
  "base_tier ready_score rmssd_pct =
     (case ready_score of None \<Rightarrow> ''Moderate''
      | Some r \<Rightarrow> tier_scan TIERS r rmssd_pct)"

definition tier_order :: "string list" where
  "tier_order = map name TIERS"

definition classify_tier ::
  "pyfloat option \<Rightarrow> real option \<Rightarrow> real option \<Rightarrow> real option \<Rightarrow> py_error + string" where
  "classify_tier ready_score rmssd_pct stress sleepiness =
     (let tier = base_tier ready_score rmssd_pct in
      case sr_cap stress sleepiness of
        None \<Rightarrow> Inr tier
      | Some cap \<Rightarrow>
          (case list_index tier_order tier of
             Inl e \<Rightarrow> Inl e
           | Inr i \<Rightarrow>
             (case list_index tier_order cap of
                Inl e \<Rightarrow> Inl e
              | Inr j \<Rightarrow> Inr (if i < j then cap else tier))))"

text \<open>Position of a tier name in the order Peak > Good > Moderate > Low > Recovery
  (0 is the highest tier); used only to state the properties below.\<close>

definition tier_rank :: "string \<Rightarrow> nat" where
  "tier_rank t = (case list_index tier_order t of Inr i \<Rightarrow> i | Inl e \<Rightarrow> length tier_order)"

section \<open>Numeric helpers shared by the analysers\<close>

text \<open>
  Python's \<open>round\<close> on the real value.  Away from a tie the result is the nearest
  neighbour.  At a tie of the real value Python rounds the binary double that stands for
  it, which may lie on either side of the tie (\<open>round(9/60, 1)\<close> is 0.1 and
  \<open>round(0.25, 1)\<close> is 0.2), so the real value does not determine the result: the side
  taken is \<open>tie_rounds_up\<close>, about which nothing is known.
\<close>

definition tie_rounds_up :: "real \<Rightarrow> bool" where
  "tie_rounds_up = undefined"

definition py_round :: "real \<Rightarrow> int" where
  "py_round x =
     (let f = \<lfloor>x\<rfloor>; d = x - of_int f in
      if d < 1 / 2 then f
      else if d > 1 / 2 then f + 1
      else if tie_rounds_up x then f + 1 else f)"

definition py_round1 :: "real \<Rightarrow> real" where
  "py_round1 x = of_int (py_round (x * 10)) / 10"

definition py_round0 :: "real \<Rightarrow> real" where
  "py_round0 x = of_int (py_round x)"

text \<open>The mean of a non-empty series; callers test for emptiness first, as pandas
  returns \<open>NaN\<close> for an empty one.\<close>

definition mean_of :: "real list \<Rightarrow> real" where
  "mean_of xs = sum_list xs / real (length xs)"

text \<open>\<open>Series.quantile(q)\<close> with pandas' default linear interpolation between the two
  order statistics around position \<open>q * (n - 1)\<close>.\<close>

definition quantile :: "real list \<Rightarrow> real \<Rightarrow> real" where
  "quantile xs q =
     (let s = sort xs;
          pos = q * real (length s - 1);
          lo = nat \<lfloor>pos\<rfloor>;
          hi = min (lo + 1) (length s - 1)
      in s ! lo + (pos - real lo) * (s ! hi - s ! lo))"

text \<open>\<open>dropna\<close> on a column.\<close>

definition dropna :: "'a option list \<Rightarrow> 'a list" where
  "dropna xs = List.map_filter (\<lambda>x. x) xs"

text \<open>\<open>df.groupby(key)\<close>: one group per distinct key, groups in ascending key order,
  rows of a group in frame order.\<close>

definition groupby :: "('r \<Rightarrow> 'k::linorder) \<Rightarrow> 'r list \<Rightarrow> ('k \<times> 'r list) list" where
  "groupby key rows =
     map (\<lambda>k. (k, filter (\<lambda>r. key r = k) rows)) (sort (remdups (map key rows)))"

section \<open>The sensor frame\<close>

text \<open>
  One row of the decoded-metrics frame.  Timestamps are seconds (\<open>datetime\<close> in UTC,
  \<open>datetime_et\<close> local); \<open>acc_energyPerSec\<close> and \<open>acc_rms\<close> hold the row's values of the
  columns named \<open>acc_*energyPerSec*\<close> and \<open>acc_*rms*\<close> (empty when the frame has no
  such column).
\<close>

record epoch =
  wear_mode :: string
  datetime :: int
  datetime_et :: int
  heart_rate_mean :: "real option"
  cardio_RMSSD_ms :: "real option"
  cardio_confidence_median :: "real option"
  acc_energyPerSec :: "real option list"
  acc_rms :: "real option list"

definition date_of :: "int \<Rightarrow> int" where
  "date_of t = t div 86400"

definition hour_of :: "int \<Rightarrow> int" where
  "hour_of t = (t mod 86400) div 3600"

definition wear_on :: "epoch list \<Rightarrow> epoch list" where
  "wear_on df = filter (\<lambda>e. wear_mode e = ''wear_on'') df"

section \<open>Strain scorer (strain.py)\<close>

definition ZONE_BOUNDS :: "real list" where
  "ZONE_BOUNDS = [0.50, 0.60, 0.70, 0.80, 0.90, 1.00]"

definition ZONE_WEIGHTS :: "real list" where
  "ZONE_WEIGHTS = [0.0, 1.0, 2.0, 4.0, 8.0]"

definition STRAIN_CAP :: real where "STRAIN_CAP = 21.0"
definition CV_DIVISOR :: real where "CV_DIVISOR = 80"
definition CV_SCALE :: real where "CV_SCALE = 5.5"
definition MUSC_DIVISOR :: real where "MUSC_DIVISOR = 5000"
definition MUSC_SCALE :: real where "MUSC_SCALE = 4.0"

definition estimate_max_hr :: "epoch list \<Rightarrow> real" where
  "estimate_max_hr df =
     (let valid = filter (\<lambda>h. h > 0) (dropna (map heart_rate_mean df)) in
      if valid = [] then 190.0 else max (quantile valid 0.99) 150.0)"

text \<open>The loop of \<open>_classify_zone\<close> over \<open>enumerate(_ZONE_BOUNDS[:-1])\<close>; a missing
  percentage compares false with every bound.\<close>

fun zone_scan :: "real list \<Rightarrow> nat \<Rightarrow> real option \<Rightarrow> nat" where
  "zone_scan [] i pct = 5"
| "zone_scan (bound # bounds) i pct =
     (if (case pct of None \<Rightarrow> False | Some p \<Rightarrow> p < bound) then i
      else zone_scan bounds (Suc i) pct)"

definition classify_zone :: "real option \<Rightarrow> real \<Rightarrow> nat" where
  "classify_zone hr max_hr =
     (let pct = (if max_hr > 0 then map_option (\<lambda>h. h / max_hr) hr else Some 0)
      in zone_scan (butlast ZONE_BOUNDS) 0 pct)"

definition raw_to_borg :: "real \<Rightarrow> real \<Rightarrow> real \<Rightarrow> real" where
  "raw_to_borg raw divisor scale =
     (if raw \<le> 0 then 0.0
      else let score = scale * ln (1 + raw / divisor)
           in min STRAIN_CAP (py_round1 score))"

definition strain_label :: "real \<Rightarrow> string" where
  "strain_label score =
     (if score < 4 then ''minimal''
      else if score < 8 then ''light''
      else if score < 14 then ''moderate''
      else if score < 18 then ''high''
      else ''overreaching'')"

record daily_strain =
  ds_date :: int
  strain_score :: real
  cardiovascular_strain :: real
  muscular_strain :: real
  strain_level :: string
  zone_min :: "real list"
  sleep_need_adjustment_min :: nat

record strain_result =
  daily_strain_list :: "daily_strain list"
  max_hr_est :: "real option"

text \<open>\<open>wear[energy_cols].sum(axis=1)\<close>: the row sum skipping missing values, 0 when
  there is no energy column.\<close>

definition strain_acc_energy :: "epoch \<Rightarrow> real" where
  "strain_acc_energy e = sum_list (dropna (acc_energyPerSec e))"

text \<open>The body of the \<open>for date, day_df in wear.groupby("date")\<close> loop.\<close>

definition strain_day :: "real \<Rightarrow> int \<Rightarrow> epoch list \<Rightarrow> daily_strain" where
  "strain_day max_hr d day_df =
     (let zones = map (\<lambda>e. classify_zone (heart_rate_mean e) max_hr) day_df;
          zone_counts = (\<lambda>z. real (length (filter (\<lambda>y. y = z) zones)));
          raw_cv = sum_list (map (\<lambda>z. zone_counts z * 0.5 * ZONE_WEIGHTS ! (z - 1)) [1..<6]);
          cv_strain = raw_to_borg raw_cv CV_DIVISOR CV_SCALE;
          moderate = filter (\<lambda>e. classify_zone (heart_rate_mean e) max_hr \<ge> 3) day_df;
          muscular_energy = (if moderate \<noteq> [] then sum_list (map strain_acc_energy moderate) else 0);
          muscular = raw_to_borg muscular_energy MUSC_DIVISOR MUSC_SCALE;
          combined = min STRAIN_CAP (py_round1 (cv_strain * 0.7 + muscular * 0.3))
      in \<lparr>ds_date = d,
          strain_score = combined,
          cardiovascular_strain = cv_strain,
          muscular_strain = muscular,
          strain_level = strain_label combined,
          zone_min = map (\<lambda>z. py_round1 (zone_counts z * 0.5)) [1..<6],
          sleep_need_adjustment_min =
            (if combined \<ge> 18 then 45 else if combined \<ge> 14 then 30
             else if combined \<ge> 10 then 15 else 0)\<rparr>)"

text \<open>\<open>analyse_strain\<close> on a frame that has the \<open>heart_rate_mean\<close> and \<open>wear_mode\<close>
  columns (an empty list is the empty frame).\<close>

definition analyse_strain :: "epoch list \<Rightarrow> strain_result" where
  "analyse_strain df =
     (let wear = wear_on df in
      if df = [] \<or> wear = [] then \<lparr>daily_strain_list = [], max_hr_est = None\<rparr>
      else
        let max_hr = estimate_max_hr wear in
        \<lparr>daily_strain_list =
           map (\<lambda>(d, day_df). strain_day max_hr d day_df)
               (groupby (\<lambda>e. date_of (datetime_et e)) wear),
         max_hr_est = Some (py_round0 max_hr)\<rparr>)"

section \<open>HRV analyser (hrv.py)\<close>

definition CONFIDENCE_THRESHOLD :: real where "CONFIDENCE_THRESHOLD = 0.7"

definition gt_opt :: "real option \<Rightarrow> real \<Rightarrow> bool" where
  "gt_opt x c = (case x of None \<Rightarrow> False | Some v \<Rightarrow> v > c)"

definition lt_opt :: "real option \<Rightarrow> real \<Rightarrow> bool" where
  "lt_opt x c = (case x of None \<Rightarrow> False | Some v \<Rightarrow> v < c)"

definition ge_opt :: "real option \<Rightarrow> real \<Rightarrow> bool" where
  "ge_opt x c = (case x of None \<Rightarrow> False | Some v \<Rightarrow> v \<ge> c)"

definition valid_hrv :: "epoch list \<Rightarrow> epoch list" where
  "valid_hrv df =
     filter (\<lambda>e. wear_mode e = ''wear_on'' \<and> gt_opt (cardio_RMSSD_ms e) 0
                 \<and> gt_opt (cardio_confidence_median e) CONFIDENCE_THRESHOLD) df"

text \<open>The slope returned by \<open>scipy.stats.linregress(x, y)\<close> for \<open>x = 0, 1, .., n - 1\<close>:
  the least-squares slope, covariance of x and y over the variance of x.\<close>

definition linregress_slope :: "real list \<Rightarrow> real" where
  "linregress_slope ys =
     (let n = length ys;
          xs = map real [0..<n];
          xm = mean_of xs;
          ym = mean_of ys;
          ssxym = sum_list (map (\<lambda>(x, y). (x - xm) * (y - ym)) (zip xs ys));
          ssxm = sum_list (map (\<lambda>x. (x - xm) * (x - xm)) xs)
      in ssxym / ssxm)"

text \<open>The fields of the result of \<open>analyse_hrv\<close> that the readiness tiers and the
  pattern detector read.  The sleep peak, SDNN mean, diurnal profile, heart-rate range and
  the downsampled time series are computed from the same \<open>valid\<close> rows and do not enter
  these fields; they are left out of the record.\<close>

record hrv_result =
  rmssd_baseline :: "real option"
  morning_rmssd :: "real option"
  rmssd_pct_baseline :: "real option"
  rmssd_7d_slope :: "real option"

definition rmssd_values :: "epoch list \<Rightarrow> real list" where
  "rmssd_values rows = dropna (map cardio_RMSSD_ms rows)"

text \<open>\<open>round(morning / baseline * 100, 1)\<close> when both values are truthy (neither
  \<open>None\<close> nor zero), else \<open>None\<close>.\<close>

definition pct_of_baseline :: "real option \<Rightarrow> real option \<Rightarrow> real option" where
  "pct_of_baseline morning baseline =
     (case morning of None \<Rightarrow> None
      | Some m \<Rightarrow>
        (case baseline of None \<Rightarrow> None
         | Some b \<Rightarrow> if m \<noteq> 0 \<and> b \<noteq> 0 then Some (py_round1 (m / b * 100)) else None))"

definition analyse_hrv :: "epoch list \<Rightarrow> hrv_result" where
  "analyse_hrv df =
     (let valid = valid_hrv df in
      if valid = [] then
        \<lparr>rmssd_baseline = None, morning_rmssd = None, rmssd_pct_baseline = None,
         rmssd_7d_slope = None\<rparr>
      else
        let rmssd = rmssd_values valid;
            top20_threshold = quantile rmssd 0.80;
            baseline = Some (mean_of (filter (\<lambda>v. v \<ge> top20_threshold) rmssd));
            last_ts = Max (set (map datetime valid));
            morning_window = filter (\<lambda>e. datetime e \<ge> last_ts - 3600) valid;
            morning = (if morning_window \<noteq> [] then Some (mean_of (rmssd_values morning_window))
                       else None);
            pct = pct_of_baseline morning baseline;
            daily_rmssd = map (\<lambda>(d, rows). mean_of (rmssd_values rows))
                              (groupby (\<lambda>e. date_of (datetime_et e)) valid)
        in \<lparr>rmssd_baseline = baseline, morning_rmssd = morning, rmssd_pct_baseline = pct,
            rmssd_7d_slope = (if length daily_rmssd \<ge> 2 then Some (linregress_slope daily_rmssd)
                              else None)\<rparr>)"

section \<open>Readiness tier assignment (readiness.py, continued)\<close>

definition TASK_MATRIX :: "(string \<times> (string \<times> bool) list) list" where
  "TASK_MATRIX =
    [(''Peak'', [(''deep_analytical_work'', True), (''creative_brainstorming'', True),
                 (''high_stakes_presentation'', True), (''routine_admin'', True),
                 (''physical_training'', True)]),
     (''Good'', [(''deep_analytical_work'', True), (''creative_brainstorming'', True),
                 (''high_stakes_presentation'', True), (''routine_admin'', True),
                 (''physical_training'', True)]),
     (''Moderate'', [(''deep_analytical_work'', False), (''creative_brainstorming'', True),
                     (''high_stakes_presentation'', False), (''routine_admin'', True),
                     (''physical_training'', True)]),
     (''Low'', [(''deep_analytical_work'', False), (''creative_brainstorming'', False),
                (''high_stakes_presentation'', False), (''routine_admin'', True),
                (''physical_training'', False)]),
     (''Recovery'', [(''deep_analytical_work'', False), (''creative_brainstorming'', False),
                     (''high_stakes_presentation'', False), (''routine_admin'', False),
                     (''physical_training'', False)])]"

text \<open>The entries of \<open>results["performance"]\<close> that the tiers and the pattern detector
  read: \<open>dr_date\<close> and \<open>sr_date\<close> are \<open>str(entry.get("date", ""))\<close>, the other fields the
  entry's value or \<open>None\<close>.  The daily mean is \<open>NaN\<close> on a day whose Ready scores are all
  missing; for stress and sleepiness \<open>NaN\<close> and \<open>None\<close> behave alike (no cap) and are both
  \<open>None\<close>.\<close>

record daily_ready_row =
  dr_date :: string
  dr_mean :: "pyfloat option"

record self_report_row =
  sr_date :: string
  sr_stress :: "real option"
  sr_sleepiness :: "real option"

record performance =
  ready_baseline :: "real option"
  daily_ready :: "daily_ready_row list"
  daily_self_report :: "self_report_row list"

text \<open>The \<open>results\<close> dictionary; a missing key is \<open>None\<close> and reads as the empty
  dictionary, as \<open>results.get(key, {})\<close> does.\<close>

record results =
  res_performance :: "performance option"
  res_hrv :: "hrv_result option"

definition perf_daily_ready :: "results \<Rightarrow> daily_ready_row list" where
  "perf_daily_ready res = (case res_performance res of None \<Rightarrow> [] | Some p \<Rightarrow> daily_ready p)"

definition perf_daily_self_report :: "results \<Rightarrow> self_report_row list" where
  "perf_daily_self_report res =
     (case res_performance res of None \<Rightarrow> [] | Some p \<Rightarrow> daily_self_report p)"

definition perf_ready_baseline :: "results \<Rightarrow> real option" where
  "perf_ready_baseline res =
     (case res_performance res of None \<Rightarrow> None | Some p \<Rightarrow> ready_baseline p)"

definition hrv_rmssd_pct_baseline :: "results \<Rightarrow> real option" where
  "hrv_rmssd_pct_baseline res =
     (case res_hrv res of None \<Rightarrow> None | Some h \<Rightarrow> rmssd_pct_baseline h)"

record tier_entry =
  te_tier :: string
  te_color :: string
  te_ready_score :: "pyfloat option"
  te_task_suitability :: "(string \<times> bool) list"

text \<open>The inner loop over \<open>daily_sr\<close>: the stress and sleepiness of the first
  self-report entry of that date.\<close>

definition self_report_for :: "self_report_row list \<Rightarrow> string \<Rightarrow> real option \<times> real option" where
  "self_report_for daily_sr d =
     (case find (\<lambda>sr. take 10 (sr_date sr) = d) daily_sr of
        None \<Rightarrow> (None, None)
      | Some sr \<Rightarrow> (sr_stress sr, sr_sleepiness sr))"

text \<open>One iteration of \<open>for day in daily_ready\<close>: the entry stored under the date.\<close>

definition tier_entry_for ::
  "self_report_row list \<Rightarrow> real option \<Rightarrow> daily_ready_row \<Rightarrow> py_error + tier_entry" where
  "tier_entry_for daily_sr rmssd_pct day =
     (let d = take 10 (dr_date day);
          score = dr_mean day;
          (stress, sleepiness) = self_report_for daily_sr d
      in case classify_tier score rmssd_pct stress sleepiness of
           Inl e \<Rightarrow> Inl e
         | Inr tier \<Rightarrow>
           (case find (\<lambda>t. name t = tier) TIERS of
              None \<Rightarrow> Inl StopIteration
            | Some t \<Rightarrow>
              Inr \<lparr>te_tier = tier, te_color = color t, te_ready_score = score,
                   te_task_suitability =
                     (case map_of TASK_MATRIX tier of None \<Rightarrow> [] | Some m \<Rightarrow> m)\<rparr>))"

fun assign_loop ::
  "daily_ready_row list \<Rightarrow> self_report_row list \<Rightarrow> real option \<Rightarrow>
   (string \<times> tier_entry) list \<Rightarrow> py_error + (string \<times> tier_entry) list" where
  "assign_loop [] daily_sr rmssd_pct tiers_by_date = Inr tiers_by_date"
| "assign_loop (day # days) daily_sr rmssd_pct tiers_by_date =
     (case tier_entry_for daily_sr rmssd_pct day of
        Inl e \<Rightarrow> Inl e
      | Inr entry \<Rightarrow>
          assign_loop days daily_sr rmssd_pct
            (AList.update (take 10 (dr_date day)) entry tiers_by_date))"

record readiness_result =
  tiers_by_date :: "(string \<times> tier_entry) list"
  latest_tier :: "tier_entry option"

definition assign_readiness_tiers :: "results \<Rightarrow> py_error + readiness_result" where
  "assign_readiness_tiers res =
     (let rmssd_pct = hrv_rmssd_pct_baseline res;
          days = perf_daily_ready res;
          daily_sr = perf_daily_self_report res
      in case assign_loop days daily_sr rmssd_pct [] of
           Inl e \<Rightarrow> Inl e
         | Inr tbd \<Rightarrow>
             Inr \<lparr>tiers_by_date = tbd,
                  latest_tier =
                    (if days \<noteq> [] then map_of tbd (take 10 (dr_date (last days))) else None)\<rparr>)"

section \<open>Sleep session analyser (sleep_sessions.py)\<close>

text \<open>
  One row of the sleep-session frame as the loader builds it: the columns
  \<open>night_date\<close>, \<open>sleep_start_local\<close> and the numeric columns are present, a missing
  timestamp, date or number is \<open>None\<close>.  A row's index is its position.
\<close>

record session =
  night_date :: "int option"
  sleep_start_local :: "int option"
  total_sleep_time_min :: "real option"
  sleep_needed_min :: "real option"
  sleep_debt_min :: "real option"
  recovery_score :: "real option"

definition DEBT_REPAY_RATE :: real where "DEBT_REPAY_RATE = 4"

text \<open>\<open>start_hour.between(10, 17)\<close>; a missing start time is not between.\<close>

definition nap_hour :: "session \<Rightarrow> bool" where
  "nap_hour s =
     (case sleep_start_local s of None \<Rightarrow> False
      | Some t \<Rightarrow> 10 \<le> hour_of t \<and> hour_of t \<le> 17)"

text \<open>\<open>Series.idxmax()\<close> over the (index, value) pairs of a group: the index of the
  first occurrence of the largest non-missing value; \<open>ValueError\<close> when every value is
  missing.\<close>

fun idxmax_from :: "(nat \<times> real) option \<Rightarrow> (nat \<times> real option) list \<Rightarrow> (nat \<times> real) option" where
  "idxmax_from best [] = best"
| "idxmax_from best ((i, None) # rest) = idxmax_from best rest"
| "idxmax_from best ((i, Some v) # rest) =
     idxmax_from (case best of None \<Rightarrow> Some (i, v)
                  | Some (j, w) \<Rightarrow> if v > w then Some (i, v) else Some (j, w)) rest"

definition idxmax :: "(nat \<times> real option) list \<Rightarrow> py_error + nat" where
  "idxmax ivs = (case idxmax_from None ivs of None \<Rightarrow> Inl ValueError | Some (i, v) \<Rightarrow> Inr i)"

text \<open>\<open>df.groupby("night_date")\<close> as lists of row indices; rows without a night date
  belong to no group.\<close>

definition keyed_of :: "session list \<Rightarrow> nat list \<Rightarrow> (int \<times> nat) list" where
  "keyed_of df idxs =
     List.map_filter (\<lambda>i. map_option (\<lambda>d. (d, i)) (night_date (df ! i))) idxs"

definition night_groups :: "session list \<Rightarrow> (int \<times> nat list) list" where
  "night_groups df =
     map (\<lambda>(d, kis). (d, map snd kis)) (groupby fst (keyed_of df [0..<length df]))"

text \<open>The inner loop \<open>for idx in group.index\<close>.\<close>

definition mark_naps :: "nat list \<Rightarrow> nat \<Rightarrow> string list \<Rightarrow> string list" where
  "mark_naps idxs longest_idx types =
     fold (\<lambda>idx ts. if idx \<noteq> longest_idx then ts[idx := ''nap''] else ts) idxs types"

text \<open>The loop \<open>for date, group in df.groupby("night_date")\<close>.\<close>

fun mark_groups ::
  "(int \<times> nat list) list \<Rightarrow> session list \<Rightarrow> string list \<Rightarrow> py_error + string list" where
  "mark_groups [] df types = Inr types"
| "mark_groups ((d, idxs) # groups) df types =
     (if length idxs > 1 then
        (case idxmax (map (\<lambda>i. (i, total_sleep_time_min (df ! i))) idxs) of
           Inl e \<Rightarrow> Inl e
         | Inr longest_idx \<Rightarrow> mark_groups groups df (mark_naps idxs longest_idx types))
      else mark_groups groups df types)"

definition classify_session_type :: "session list \<Rightarrow> py_error + string list" where
  "classify_session_type df =
     (let types = map (\<lambda>s. if nap_hour s then ''nap'' else ''primary'') df
      in mark_groups (night_groups df) df types)"

text \<open>Three-way comparison used by both trends: \<open>up\<close> when \<open>a > b\<close>, \<open>down\<close> when
  \<open>a < b\<close>, else \<open>stable\<close>.\<close>

definition compare_trend :: "real \<Rightarrow> real \<Rightarrow> string \<Rightarrow> string \<Rightarrow> string" where
  "compare_trend a b up down = (if a > b then up else if a < b then down else ''stable'')"

text \<open>The result of \<open>_analyse_sleep_debt\<close>; a field is \<open>None\<close> when its key is absent
  from the returned dictionary or holds \<open>None\<close>.  Without a debt reading the function
  returns only \<open>current_debt_min\<close> and \<open>current_debt_hours\<close>, both \<open>None\<close>.\<close>

record debt_result =
  current_debt_min :: "real option"
  current_debt_hours :: "real option"
  nights_to_repay :: "int option"
  avg_nightly_deficit_min :: "real option"
  debt_trend :: "string option"

definition debt_trend_of :: "real list \<Rightarrow> string" where
  "debt_trend_of debts =
     (if length debts \<ge> 3 then
        (let last_3 = drop (length debts - 3) debts
         in compare_trend (last last_3) (hd last_3) ''worsening'' ''improving'')
      else if length debts \<ge> 2 then
        compare_trend (last debts) (hd debts) ''worsening'' ''improving''
      else ''stable'')"

definition analyse_sleep_debt :: "session list \<Rightarrow> debt_result" where
  "analyse_sleep_debt df =
     (let debts = dropna (map sleep_debt_min df) in
      if df = [] \<or> debts = [] then
        \<lparr>current_debt_min = None, current_debt_hours = None, nights_to_repay = None,
         avg_nightly_deficit_min = None, debt_trend = None\<rparr>
      else
        let current = last debts;
            debt_hours = py_round1 (current / 60);
            repay = (if debt_hours > 0 then py_round0 (debt_hours * DEBT_REPAY_RATE) else 0);
            needed = dropna (map sleep_needed_min df);
            actual = dropna (map total_sleep_time_min df);
            avg_deficit = (if needed \<noteq> [] \<and> actual \<noteq> []
                           then Some (py_round1 (mean_of needed - mean_of actual)) else None)
        in \<lparr>current_debt_min = Some (py_round1 current),
            current_debt_hours = Some debt_hours,
            nights_to_repay = Some \<lfloor>repay\<rfloor>,
            avg_nightly_deficit_min = avg_deficit,
            debt_trend = Some (debt_trend_of debts)\<rparr>)"

text \<open>The result of \<open>_analyse_recovery\<close>, with the same reading of \<open>None\<close>; without a
  recovery reading the function returns only \<open>latest = None\<close>.\<close>

record recovery_result =
  rec_latest :: "real option"
  rec_zone :: "string option"
  rec_personal_mean :: "real option"
  rec_pct_of_mean :: "real option"
  rec_trend :: "string option"
  rec_days_since_green_zone :: "nat option"
  rec_history :: "real list"

definition recovery_trend_of :: "real list \<Rightarrow> string" where
  "recovery_trend_of scores =
     (if length scores \<ge> 2 then
        compare_trend (scores ! (length scores - 1)) (scores ! (length scores - 2))
          ''improving'' ''declining''
      else ''stable'')"

text \<open>The loop \<open>for i in range(len(scores) - 1, -1, -1)\<close> on the reversed readings:
  the number of readings after the latest one of at least 67, \<open>None\<close> when there is none.\<close>

fun since_green :: "real list \<Rightarrow> nat \<Rightarrow> nat option" where
  "since_green [] k = None"
| "since_green (s # older) k = (if s \<ge> 67 then Some k else since_green older (Suc k))"

definition analyse_recovery :: "session list \<Rightarrow> recovery_result" where
  "analyse_recovery df =
     (let scores = dropna (map recovery_score df) in
      if df = [] \<or> scores = [] then
        \<lparr>rec_latest = None, rec_zone = None, rec_personal_mean = None, rec_pct_of_mean = None,
         rec_trend = None, rec_days_since_green_zone = None, rec_history = []\<rparr>
      else
        let latest = last scores;
            mean_score = mean_of scores;
            zone = (if latest < 34 then ''red'' else if latest < 67 then ''yellow'' else ''green'');
            days = (case since_green (rev scores) 0 of None \<Rightarrow> length scores | Some k \<Rightarrow> k)
        in \<lparr>rec_latest = Some (py_round1 latest),
            rec_zone = Some zone,
            rec_personal_mean = Some (py_round1 mean_score),
            rec_pct_of_mean = (if mean_score > 0 then Some (py_round1 (latest / mean_score * 100))
                               else None),
            rec_trend = Some (recovery_trend_of scores),
            rec_days_since_green_zone = Some days,
            rec_history = map py_round1 scores\<rparr>)"

text \<open>The trends as the specification words them: the comparison of the last with the
  first of the most recent three debt readings (of all of them when there are fewer), and
  the comparison of the last two recovery readings.\<close>

definition spec_debt_trend :: "real list \<Rightarrow> string" where
  "spec_debt_trend readings =
     (let recent = drop (length readings - 3) readings in
      if last recent > hd recent then ''worsening''
      else if last recent < hd recent then ''improving''
      else ''stable'')"

definition spec_recovery_trend :: "real list \<Rightarrow> string" where
  "spec_recovery_trend readings =
     (let recent = drop (length readings - 2) readings in
      if last recent > hd recent then ''improving''
      else if last recent < hd recent then ''declining''
      else ''stable'')"

section \<open>Circadian model (circadian.py)\<close>

text \<open>One row of the test-score frame: the test type, the local hour of day and the
  score (\<open>None\<close> for \<open>NaN\<close>).\<close>

record test_row =
  test_type :: string
  hour :: "real option"
  score :: "real option"





section \<open>Pattern detector (patterns.py)\<close>

text \<open>A pattern record; the description text, formatted from the same numbers, is left
  out.\<close>

record pattern =
  pattern_id :: string
  severity :: string
  first_detected :: "string option"

text \<open>\<open>[d["mean"] for d in recent if d.get("mean") is not None]\<close>: the means other than
  \<open>None\<close>; a \<open>NaN\<close> mean stays in the list.\<close>

definition present_means :: "daily_ready_row list \<Rightarrow> pyfloat list" where
  "present_means recent = List.map_filter dr_mean recent"

text \<open>\<open>[means[i + 1] - means[i] for i in range(len(means) - 1)]\<close>.\<close>

definition deltas_of :: "pyfloat list \<Rightarrow> pyfloat list" where
  "deltas_of means = map (\<lambda>i. fsub (means ! (i + 1)) (means ! i)) [0..<length means - 1]"

text \<open>\<open>sum(1 for d in deltas if d < 0)\<close>.\<close>

definition count_negative :: "pyfloat list \<Rightarrow> nat" where
  "count_negative deltas = length (filter (\<lambda>d. flt d 0) deltas)"

text \<open>\<open>daily_ready[-7:]\<close>.\<close>

definition last7 :: "'a list \<Rightarrow> 'a list" where
  "last7 xs = drop (length xs - 7) xs"

text \<open>Rule 1 of \<open>detect_patterns\<close>, compounding readiness debt: the patterns it
  appends.\<close>

definition readiness_debt_rule :: "results \<Rightarrow> pattern list" where
  "readiness_debt_rule res =
     (let days = perf_daily_ready res in
      if length days \<ge> 5 then
        (let recent = last7 days;
             means = present_means recent
         in if length means \<ge> 5 then
              (let deltas = deltas_of means;
                   declining_days = count_negative deltas
               in if declining_days \<ge> 3 then
                    [\<lparr>pattern_id = ''compounding_readiness_debt'',
                      severity = ''warning'',
                      first_detected = Some (take 10 (dr_date (last recent)))\<rparr>]
                  else [])
            else [])
      else [])"

text \<open>
  \<open>detect_patterns\<close> starts from the empty list and every rule only appends to it, so
  the returned list is the patterns of rule 1 followed by those of rules 2 to 14; the
  latter are the parameter \<open>later_rules\<close>.
\<close>

definition detect_patterns :: "pattern list \<Rightarrow> results \<Rightarrow> pattern list" where
  "detect_patterns later_rules res = readiness_debt_rule res @ later_rules"

text \<open>
  The negative day-over-day deltas as the specification counts them: the positions of a
  series of means at which a number is followed by a smaller number.  A step from or to
  \<open>NaN\<close> is not a decline.
\<close>

definition declining_steps :: "pyfloat list \<Rightarrow> nat set" where
  "declining_steps means =
     {i. i + 1 < length means \<and>
         (\<exists>a b. means ! i = Fin a \<and> means ! (i + 1) = Fin b \<and> b < a)}"

section \<open>Agent payload (agent_payload.py)\<close>

text \<open>Python's structured values: \<open>None\<close>, booleans, numbers, strings, lists and
  dictionaries (in insertion order).\<close>

datatype json =
    JNone
  | JBool bool
  | JInt int
  | JFloat real
  | JStr string
  | JList "json list"
  | JDict "(string \<times> json) list"

text \<open>
  \<open>_strip_nulls\<close>.  A dictionary keeps the entries whose stripped value is neither
  \<open>None\<close> nor an empty dictionary and becomes \<open>None\<close> when nothing is kept; a list keeps
  its stripped items other than \<open>None\<close>; the numpy scalar conversions leave the value as
  it is.
\<close>

fun strip_nulls :: "json \<Rightarrow> json" where
  "strip_nulls (JDict kvs) =
     (let cleaned = filter (\<lambda>kv. snd kv \<noteq> JNone \<and> snd kv \<noteq> JDict [])
                      (map (\<lambda>kv. (fst kv, strip_nulls (snd kv))) kvs)
      in if cleaned \<noteq> [] then JDict cleaned else JNone)"
| "strip_nulls (JList items) = JList (filter (\<lambda>c. c \<noteq> JNone) (map strip_nulls items))"
| "strip_nulls obj = obj"

text \<open>The values that the thirteen builder calls of \<open>build_agent_payload\<close> return, in
  the order of the payload's keys after \<open>schema_version\<close>.\<close>

record payload_parts =
  pp_meta :: json
  pp_agent_state :: json
  pp_data_quality :: json
  pp_alerts :: json
  pp_baseline :: json
  pp_latest_day :: json
  pp_circadian :: json
  pp_recovery :: json
  pp_sleep_debt :: json
  pp_sleep_performance :: json
  pp_sleep_architecture_summary :: json
  pp_strain :: json
  pp_trends :: json

definition build_agent_payload :: "payload_parts \<Rightarrow> json" where
  "build_agent_payload parts =
     strip_nulls (JDict
       [(''schema_version'', JStr ''3.0''),
        (''meta'', pp_meta parts),
        (''agent_state'', pp_agent_state parts),
        (''data_quality'', pp_data_quality parts),
        (''alerts'', pp_alerts parts),
        (''baseline'', pp_baseline parts),
        (''latest_day'', pp_latest_day parts),
        (''circadian'', pp_circadian parts),
        (''recovery'', pp_recovery parts),
        (''sleep_debt'', pp_sleep_debt parts),
        (''sleep_performance'', pp_sleep_performance parts),
        (''sleep_architecture_summary'', pp_sleep_architecture_summary parts),
        (''strain'', pp_strain parts),
        (''trends'', pp_trends parts)])"

text \<open>The property the specification asks for: no dictionary entry, at any depth, holds \<open>None\<close>, an
  empty dictionary or an empty list; and the part of it that leaves empty lists out.\<close>

fun no_null_or_empty_entry :: "json \<Rightarrow> bool" where
  "no_null_or_empty_entry (JDict kvs) =
     list_all (\<lambda>kv. snd kv \<noteq> JNone \<and> snd kv \<noteq> JDict [] \<and> snd kv \<noteq> JList [] \<and>
                     no_null_or_empty_entry (snd kv)) kvs"
| "no_null_or_empty_entry (JList items) = list_all no_null_or_empty_entry items"
| "no_null_or_empty_entry obj = True"

fun no_null_or_empty_dict_entry :: "json \<Rightarrow> bool" where
  "no_null_or_empty_dict_entry (JDict kvs) =
     list_all (\<lambda>kv. snd kv \<noteq> JNone \<and> snd kv \<noteq> JDict [] \<and>
                     no_null_or_empty_dict_entry (snd kv)) kvs"
| "no_null_or_empty_dict_entry (JList items) = list_all no_null_or_empty_dict_entry items"
| "no_null_or_empty_dict_entry obj = True"

section \<open>Sleep detector (sleep.py)\<close>

text \<open>\<open>_acc_energy\<close>: the root of the summed squares of the RMS columns when one of
  them has a value, else the sum of the energy columns, else 0.\<close>

definition acc_energy :: "epoch \<Rightarrow> real" where
  "acc_energy e =
     (let rms = dropna (acc_rms e) in
      if rms \<noteq> [] then sqrt (sum_list (map (\<lambda>v. v * v) rms))
      else sum_list (dropna (acc_energyPerSec e)))"

text \<open>\<open>Series.rolling(window, min_periods).mean()\<close>: at each position the mean of the
  values present among the last \<open>window\<close> positions, missing when fewer than
  \<open>min_periods\<close> of them are present.\<close>

definition rolling_mean :: "nat \<Rightarrow> nat \<Rightarrow> real option list \<Rightarrow> real option list" where
  "rolling_mean window min_periods xs =
     map (\<lambda>p. let win = dropna (drop (p + 1 - window) (take (p + 1) xs))
               in if length win \<ge> min_periods then Some (mean_of win) else None)
         [0..<length xs]"

text \<open>\<open>round(x, 3)\<close>.\<close>

definition py_round3 :: "real \<Rightarrow> real" where
  "py_round3 x = of_int (py_round (x * 1000)) / 1000"

text \<open>
  The search for the first sustained wake over \<open>wake_idx\<close>, the row indices of the wake
  candidates: the loop \<open>for i in range(1, len(wake_idx))\<close> with its counter
  \<open>consecutive\<close>.  The result is the position in \<open>wake_idx\<close> of \<open>sleep_offset_idx\<close>:
  \<open>i - consecutive + 1\<close> for the incremented counter at the \<open>break\<close> (written
  \<open>i + 1 - (consecutive + 1)\<close> so that the natural-number subtraction is exact), and 0,
  the initial \<open>wake_idx[0]\<close>, when the loop ends without one.
\<close>

function wake_loop :: "nat list \<Rightarrow> nat \<Rightarrow> nat \<Rightarrow> nat" where
  "wake_loop wake_idx i consecutive =
     (if i < length wake_idx then
        (if wake_idx ! i = wake_idx ! (i - 1) + 1 then
           (if consecutive + 1 \<ge> 5 then i + 1 - (consecutive + 1)
            else wake_loop wake_idx (i + 1) (consecutive + 1))
         else wake_loop wake_idx (i + 1) 1)
      else 0)"
  by pat_completeness auto
termination
  by (relation "measure (\<lambda>(wake_idx, i, consecutive). length wake_idx - i)") auto

declare wake_loop.simps [simp del]

text \<open>A sustained wake among the wake candidates: position \<open>p\<close> of \<open>wake_idx\<close> starts
  five entries whose row indices are consecutive.\<close>

definition run_of_five :: "nat list \<Rightarrow> nat \<Rightarrow> bool" where
  "run_of_five wake_idx p \<longleftrightarrow>
     p + 4 < length wake_idx \<and>
     (\<forall>j \<in> {p + 1..p + 4}. wake_idx ! j = wake_idx ! (j - 1) + 1)"

record night =
  n_night_date :: int
  sleep_onset :: int
  sleep_offset :: int
  duration_min :: real
  hr_nadir_bpm :: "real option"
  wake_episodes :: nat
  continuity_score :: real

text \<open>\<open>np.diff(idx_arr)\<close>.\<close>

definition diffs :: "nat list \<Rightarrow> int list" where
  "diffs idx = map (\<lambda>(a, b). int b - int a) (zip idx (tl idx))"

text \<open>The sleep onset of a night: the local time of the first onset candidate, \<open>None\<close>
  where the loop body runs \<open>continue\<close>.  Rows carry their index in the sorted frame.\<close>

definition find_onset :: "(nat \<times> epoch) list \<Rightarrow> int option" where
  "find_onset night_df =
     (let sleep_window = filter (\<lambda>(i, e). hour_of (datetime_et e) \<ge> 21
                                          \<or> hour_of (datetime_et e) \<le> 3) night_df
      in if sleep_window = [] then None
         else
           let below65 = filter (\<lambda>(i, e). lt_opt (heart_rate_mean e) 65) sleep_window;
               has_rmssd = list_ex (\<lambda>(i, e). cardio_RMSSD_ms e \<noteq> None) night_df;
               cand = (if has_rmssd
                       then filter (\<lambda>(i, e). gt_opt (cardio_RMSSD_ms e) 70) below65
                       else below65);
               onset_candidates =
                 (if cand = [] then filter (\<lambda>(i, e). lt_opt (heart_rate_mean e) 70) sleep_window
                  else cand)
           in if onset_candidates = [] then None
              else Some (datetime_et (snd (hd onset_candidates))))"

text \<open>The sleep offset of a night with onset \<open>onset\<close>.\<close>

definition find_offset :: "(nat \<times> epoch) list \<Rightarrow> int \<Rightarrow> int" where
  "find_offset night_df onset =
     (let post_onset = filter (\<lambda>(i, e). datetime_et e \<ge> onset) night_df;
          wake_candidates = filter (\<lambda>(i, e). ge_opt (heart_rate_mean e) 70) post_onset
      in if wake_candidates \<noteq> [] then
           datetime_et (snd (wake_candidates ! wake_loop (map fst wake_candidates) 1 1))
         else datetime_et (snd (last post_onset)))"

text \<open>The rows between onset and offset, and the statistics of the night computed
  from them: the minimum of the 30-minute rolling mean of the heart rate, and the number
  of wake episodes (clusters of epochs with heart rate above 70 and energy above 500,
  split where the row indices jump by more than 5).\<close>

definition sleep_period :: "(nat \<times> epoch) list \<Rightarrow> int \<Rightarrow> int \<Rightarrow> (nat \<times> epoch) list" where
  "sleep_period night_df onset offset =
     filter (\<lambda>(i, e). datetime_et e \<ge> onset \<and> datetime_et e \<le> offset) night_df"

definition hr_nadir_of :: "(nat \<times> epoch) list \<Rightarrow> real option" where
  "hr_nadir_of period =
     (let hr_rolling = dropna (rolling_mean 60 10 (map (\<lambda>(i, e). heart_rate_mean e) period))
      in if hr_rolling \<noteq> [] then Some (Min (set hr_rolling)) else None)"

definition wake_episodes_of :: "(nat \<times> epoch) list \<Rightarrow> nat" where
  "wake_episodes_of period =
     (let wake_epochs = filter (\<lambda>(i, e). gt_opt (heart_rate_mean e) 70 \<and> acc_energy e > 500)
                          period
      in if wake_epochs \<noteq> []
         then length (filter (\<lambda>g. g > 5) (diffs (map fst wake_epochs))) + 1
         else 0)"

definition continuity_of :: "nat \<Rightarrow> real \<Rightarrow> real" where
  "continuity_of episodes duration =
     (let continuity = py_round3 (1 - real episodes * 5 / max duration 1)
      in max 0.0 (min 1.0 continuity))"

text \<open>The body of the loop \<open>for night_date, night_df in wear.groupby("night_date")\<close>;
  \<open>None\<close> where it runs \<open>continue\<close>.\<close>

definition analyse_night :: "int \<Rightarrow> (nat \<times> epoch) list \<Rightarrow> night option" where
  "analyse_night d night_df =
     (case find_onset night_df of
        None \<Rightarrow> None
      | Some onset \<Rightarrow>
          let offset = find_offset night_df onset;
              duration = real_of_int (offset - onset) / 60
          in if duration < 60 then None
             else
               let period = sleep_period night_df onset offset;
                   hr_nadir = hr_nadir_of period;
                   episodes = wake_episodes_of period
               in Some \<lparr>n_night_date = d,
                        sleep_onset = onset,
                        sleep_offset = offset,
                        duration_min = py_round1 duration,
                        hr_nadir_bpm = (case hr_nadir of None \<Rightarrow> None
                                        | Some h \<Rightarrow> if h \<noteq> 0 then Some (py_round1 h) else None),
                        wake_episodes = episodes,
                        continuity_score = continuity_of episodes duration\<rparr>)"

record sleep_result =
  nights :: "night list"
  latest_night :: "night option"

text \<open>\<open>analyse_sleep\<close> on a frame with the \<open>heart_rate_mean\<close> column: the worn rows
  sorted by \<open>datetime\<close> and indexed from 0, grouped by the night date (18:00 to 18:00
  local).\<close>

definition night_date_of :: "epoch \<Rightarrow> int" where
  "night_date_of e = date_of (datetime_et e - 64800)"

definition analyse_sleep :: "epoch list \<Rightarrow> sleep_result" where
  "analyse_sleep df =
     (let wear = sort_key datetime (wear_on df) in
      if wear = [] then \<lparr>nights = [], latest_night = None\<rparr>
      else
        let found = List.map_filter (\<lambda>(d, night_df). analyse_night d night_df)
                      (groupby (\<lambda>(i, e). night_date_of e) (zip [0..<length wear] wear))
        in \<lparr>nights = found,
            latest_night = (if found \<noteq> [] then Some (last found) else None)\<rparr>)"

text \<open>
  The offset as the specification words it: the time of the first epoch after onset that
  starts a run of at least 5 consecutive epochs (consecutive rows of the frame) with heart
  rate at least 70, else the time of the last available epoch of the night.
\<close>

definition starts_wake_run :: "(nat \<times> epoch) list \<Rightarrow> bool" where
  "starts_wake_run rows =
     (length rows \<ge> 5 \<and>
      list_all (\<lambda>(i, e). ge_opt (heart_rate_mean e) 70) (take 5 rows) \<and>
      map fst (take 5 rows) = map (\<lambda>k. fst (hd rows) + k) [0..<5])"

fun spec_offset_from :: "(nat \<times> epoch) list \<Rightarrow> int option" where
  "spec_offset_from [] = None"
| "spec_offset_from (r # rows) =
     (if starts_wake_run (r # rows) then Some (datetime_et (snd r))
      else spec_offset_from rows)"

definition spec_offset :: "(nat \<times> epoch) list \<Rightarrow> int \<Rightarrow> int" where
  "spec_offset night_df onset =
     (let post_onset = filter (\<lambda>(i, e). datetime_et e \<ge> onset) night_df
      in case spec_offset_from post_onset of
           Some t \<Rightarrow> t
         | None \<Rightarrow> datetime_et (snd (last post_onset)))"

section \<open>Example inputs\<close>

text \<open>Two worn epochs of one day with heart rates 100 and 160 and 300 units of
  accelerometer energy each.\<close>

definition ex_epoch :: "real \<Rightarrow> epoch" where
  "ex_epoch h =
     \<lparr>wear_mode = ''wear_on'', datetime = 0, datetime_et = 0,
      heart_rate_mean = Some h, cardio_RMSSD_ms = None, cardio_confidence_median = None,
      acc_energyPerSec = [Some 300], acc_rms = []\<rparr>"

definition ex_strain_frame :: "epoch list" where
  "ex_strain_frame = [ex_epoch 100, ex_epoch 160]"

text \<open>One day with a Ready mean of 160, stress 6 and sleepiness 6, HRV at 80 percent of
  baseline.\<close>

definition ex_hrv :: hrv_result where
  "ex_hrv = \<lparr>rmssd_baseline = Some 80, morning_rmssd = Some 64,
            rmssd_pct_baseline = Some 80, rmssd_7d_slope = None\<rparr>"

definition ex_results_one_day :: results where
  "ex_results_one_day =
     \<lparr>res_performance = Some
        \<lparr>ready_baseline = Some 180,
         daily_ready = [\<lparr>dr_date = ''2024-03-01 00:00:00'', dr_mean = Some (Fin 160)\<rparr>],
         daily_self_report =
           [\<lparr>sr_date = ''2024-03-01 00:00:00'', sr_stress = Some 6, sr_sleepiness = Some 6\<rparr>]\<rparr>,
      res_hrv = Some ex_hrv\<rparr>"

definition ex_low_suitability :: "(string \<times> bool) list" where
  "ex_low_suitability =
     [(''deep_analytical_work'', False), (''creative_brainstorming'', False),
      (''high_stakes_presentation'', False), (''routine_admin'', True),
      (''physical_training'', False)]"

definition ex_good_suitability :: "(string \<times> bool) list" where
  "ex_good_suitability =
     [(''deep_analytical_work'', True), (''creative_brainstorming'', True),
      (''high_stakes_presentation'', True), (''routine_admin'', True),
      (''physical_training'', True)]"

definition ex_entry_low :: tier_entry where
  "ex_entry_low =
     \<lparr>te_tier = ''Low'', te_color = ''orange'', te_ready_score = Some (Fin 160),
      te_task_suitability = ex_low_suitability\<rparr>"

text \<open>Two days with Ready means 180 and 135 and no self-report, HRV at 80 percent of
  baseline.\<close>

definition ex_results_two_days :: results where
  "ex_results_two_days =
     \<lparr>res_performance = Some
        \<lparr>ready_baseline = Some 180,
         daily_ready = [\<lparr>dr_date = ''2024-03-01 00:00:00'', dr_mean = Some (Fin 180)\<rparr>,
                        \<lparr>dr_date = ''2024-03-02 00:00:00'', dr_mean = Some (Fin 135)\<rparr>],
         daily_self_report = []\<rparr>,
      res_hrv = Some ex_hrv\<rparr>"

definition ex_entry_good :: tier_entry where
  "ex_entry_good =
     \<lparr>te_tier = ''Good'', te_color = ''blue'', te_ready_score = Some (Fin 180),
      te_task_suitability = ex_good_suitability\<rparr>"

definition ex_entry_low2 :: tier_entry where
  "ex_entry_low2 =
     \<lparr>te_tier = ''Low'', te_color = ''orange'', te_ready_score = Some (Fin 135),
      te_task_suitability = ex_low_suitability\<rparr>"

text \<open>Three primary sessions with debt readings 100, 120, 150 and recovery readings
  50, 70, 60.\<close>

definition ex_session :: "int \<Rightarrow> real \<Rightarrow> real \<Rightarrow> real \<Rightarrow> session" where
  "ex_session start tst debt recov =
     \<lparr>night_date = Some (date_of start), sleep_start_local = Some start,
      total_sleep_time_min = Some tst, sleep_needed_min = Some 480,
      sleep_debt_min = Some debt, recovery_score = Some recov\<rparr>"

definition ex_history :: "session list" where
  "ex_history = [ex_session 82800 400 100 50, ex_session 169200 380 120 70,
                 ex_session 255600 360 150 60]"

text \<open>Two sessions of one night date: 400 minutes of sleep starting at 13:00 local
  time and 90 minutes starting at 20:00; and the same pair with the long session
  starting at 01:00.\<close>

definition ex_day_sleeper :: "session list" where
  "ex_day_sleeper = [ex_session 46800 400 0 50, ex_session 72000 90 0 50]"

definition ex_night_and_nap :: "session list" where
  "ex_night_and_nap = [ex_session 3600 400 0 50, ex_session 50400 90 0 50]"




text \<open>Daily Ready series of four and of five consecutive days, with no self-report
  and no HRV.\<close>

definition ex_series :: "daily_ready_row list \<Rightarrow> results" where
  "ex_series days =
     \<lparr>res_performance = Some
        \<lparr>ready_baseline = Some 180, daily_ready = days, daily_self_report = []\<rparr>,
      res_hrv = None\<rparr>"



text \<open>A six-day series whose third day has no valid Ready score: its daily mean is
  \<open>NaN\<close>.\<close>

definition ex_nan_day :: results where
  "ex_nan_day = ex_series
     [\<lparr>dr_date = ''2024-03-01 00:00:00'', dr_mean = Some (Fin 160)\<rparr>,
      \<lparr>dr_date = ''2024-03-02 00:00:00'', dr_mean = Some (Fin 155)\<rparr>,
      \<lparr>dr_date = ''2024-03-03 00:00:00'', dr_mean = Some NaN\<rparr>,
      \<lparr>dr_date = ''2024-03-04 00:00:00'', dr_mean = Some (Fin 148)\<rparr>,
      \<lparr>dr_date = ''2024-03-05 00:00:00'', dr_mean = Some (Fin 140)\<rparr>,
      \<lparr>dr_date = ''2024-03-06 00:00:00'', dr_mean = Some (Fin 145)\<rparr>]"

text \<open>
  The values of the builders when no frame was supplied (\<open>full_packet = {}\<close>,
  \<open>results = {}\<close>): \<open>_build_meta\<close> returns two \<open>None\<close> fields, \<open>_build_agent_state\<close> and
  \<open>_build_data_quality\<close> their defaults, \<open>_build_alerts\<close> the empty list (no alert rule
  fires), and every other builder \<open>None\<close>.
\<close>

definition ex_no_data_parts :: payload_parts where
  "ex_no_data_parts =
     \<lparr>pp_meta = JDict [(''analysis_generated_at'', JNone), (''data_coverage'', JNone)],
      pp_agent_state = JDict
        [(''readiness_regime'', JStr ''green''),
         (''consecutive_overreach_days'', JInt 0),
         (''days_since_rest_day'', JNone),
         (''sleep_debt_alert'', JBool False),
         (''rem_deficit_alert'', JBool False),
         (''circadian_anchor_missing'', JBool False),
         (''recommended_strain_ceiling'', JInt 18),
         (''deep_work_capacity'', JStr ''high''),
         (''nap_recommended'', JBool False),
         (''nap_window_local'', JNone),
         (''peak_cognitive_window_local'', JNone),
         (''peak_cognitive_confidence'', JStr ''low'')],
      pp_data_quality = JDict
        [(''sensor_days'', JInt 0),
         (''sleep_sessions_primary'', JInt 0),
         (''self_report_populated_pct'', JInt 0),
         (''morning_hrv_populated_pct'', JInt 0),
         (''focus_metric_valid'', JBool False),
         (''strain_recovery_curve_learnable'', JBool False),
         (''chronotype_confidence'', JStr ''low''),
         (''overall_confidence'', JStr ''low''),
         (''confidence_note'', JStr (''Low confidence: only 0 sensor day(s), '' @
            ''only 0 primary sleep session(s), only 0 Ready test(s). '' @
            ''Collect more data for reliable insights.''))],
      pp_alerts = JList [],
      pp_baseline = JNone,
      pp_latest_day = JNone,
      pp_circadian = JNone,
      pp_recovery = JNone,
      pp_sleep_debt = JNone,
      pp_sleep_performance = JNone,
      pp_sleep_architecture_summary = JNone,
      pp_strain = JNone,
      pp_trends = JNone\<rparr>"

definition ex_no_data_payload :: json where
  "ex_no_data_payload = JDict
     [(''schema_version'', JStr ''3.0''),
      (''agent_state'', JDict
        [(''readiness_regime'', JStr ''green''),
         (''consecutive_overreach_days'', JInt 0),
         (''sleep_debt_alert'', JBool False),
         (''rem_deficit_alert'', JBool False),
         (''circadian_anchor_missing'', JBool False),
         (''recommended_strain_ceiling'', JInt 18),
         (''deep_work_capacity'', JStr ''high''),
         (''nap_recommended'', JBool False),
         (''peak_cognitive_confidence'', JStr ''low'')]),
      (''data_quality'', JDict
        [(''sensor_days'', JInt 0),
         (''sleep_sessions_primary'', JInt 0),
         (''self_report_populated_pct'', JInt 0),
         (''morning_hrv_populated_pct'', JInt 0),
         (''focus_metric_valid'', JBool False),
         (''strain_recovery_curve_learnable'', JBool False),
         (''chronotype_confidence'', JStr ''low''),
         (''overall_confidence'', JStr ''low''),
         (''confidence_note'', JStr (''Low confidence: only 0 sensor day(s), '' @
            ''only 0 primary sleep session(s), only 0 Ready test(s). '' @
            ''Collect more data for reliable insights.''))]),
      (''alerts'', JList [])]"

text \<open>
  A night of worn epochs every ten minutes from 23:00 to 01:00 local time (UTC five hours
  ahead), heart rate 60 throughout except for a single epoch of 75 at 00:30, no HRV and no
  motion.
\<close>

definition ex_sleep_epoch :: "int \<Rightarrow> real \<Rightarrow> epoch" where
  "ex_sleep_epoch t h =
     \<lparr>wear_mode = ''wear_on'', datetime = t + 18000, datetime_et = t,
      heart_rate_mean = Some h, cardio_RMSSD_ms = None, cardio_confidence_median = None,
      acc_energyPerSec = [], acc_rms = []\<rparr>"

definition ex_spike_night :: "epoch list" where
  "ex_spike_night =
     [ex_sleep_epoch 82800 60, ex_sleep_epoch 83400 60, ex_sleep_epoch 84000 60,
      ex_sleep_epoch 84600 60, ex_sleep_epoch 85200 60, ex_sleep_epoch 85800 60,
      ex_sleep_epoch 86400 60, ex_sleep_epoch 87000 60, ex_sleep_epoch 87600 60,
      ex_sleep_epoch 88200 75, ex_sleep_epoch 88800 60, ex_sleep_epoch 89400 60,
      ex_sleep_epoch 90000 60]"

text \<open>
  The night of the specification's example, in 30-second epochs from 23:00 to 06:05 local
  time: heart rate 60 up to 05:59:30 and 75 from 06:00 on.
\<close>

definition ex_full_epoch :: "nat \<Rightarrow> epoch" where
  "ex_full_epoch k = ex_sleep_epoch (82800 + 30 * int k) (if k < 840 then 60 else 75)"

definition ex_full_night :: "epoch list" where
  "ex_full_night = map ex_full_epoch [0..<851]"

section \<open>Properties of the activity classifier\<close>

text \<open>The sedentary rule holds as the specification words it.\<close>

lemma classify_epoch_sedentary:
  "energy < SEDENTARY_ENERGY \<Longrightarrow> hr < 80 \<Longrightarrow> classify_epoch energy hr = ''sedentary''"
  by (simp add: classify_epoch_def)

text \<open>The heart-rate band of the \<open>moderate\<close> branch is reached only with an energy of at
  least 200, where the level is at least moderate whatever the heart rate; its one effect
  is to turn a vigorous epoch into a moderate one.\<close>

lemma classify_epoch_band_only_lowers:
  "MODERATE_ENERGY \<le> energy \<Longrightarrow>
   classify_epoch energy hr = (if 80 \<le> hr \<and> hr < 100 then ''moderate'' else ''vigorous'')"
  by (simp add: classify_epoch_def SEDENTARY_ENERGY_def LIGHT_ENERGY_def MODERATE_ENERGY_def)

lemma classify_epoch_below_light:
  "energy < LIGHT_ENERGY \<Longrightarrow> classify_epoch energy hr \<in> {''sedentary'', ''light''}"
  by (simp add: classify_epoch_def)

text \<open>
  C6 fails on the code: an epoch with heart rate 90, inside the band 80 to 100, and energy
  100 is classified \<open>light\<close>, below \<open>moderate\<close>.  The band test \<open>80 <= hr < 100\<close> stands
  in the \<open>moderate\<close> branch but after the test \<open>energy < 200\<close>, so it never raises an
  epoch: at energy 700 it lowers heart rate 90 to \<open>moderate\<close> where heart rates 60 and 120
  give \<open>vigorous\<close>.
\<close>

theorem C6_band_does_not_raise_low_energy_epoch:
  "classify_epoch 100 90 = ''light'' \<and>
   classify_epoch 700 90 = ''moderate'' \<and>
   classify_epoch 700 60 = ''vigorous'' \<and>
   classify_epoch 700 120 = ''vigorous''"
  by (simp add: classify_epoch_def SEDENTARY_ENERGY_def LIGHT_ENERGY_def MODERATE_ENERGY_def)

section \<open>Properties of the readiness tier classifier\<close>

lemma tier_order_eval:
  "tier_order = [''Peak'', ''Good'', ''Moderate'', ''Low'', ''Recovery'']"
  by (simp add: tier_order_def TIERS_def)

lemma tier_scan_in_order: "tier_scan ts r p \<in> set (map name ts) \<union> {''Recovery''}"
  by (induction ts) auto

lemma base_tier_cases:
  "base_tier r p \<in> {''Peak'', ''Good'', ''Moderate'', ''Low'', ''Recovery''}"
proof (cases r)
  case None
  then show ?thesis by (simp add: base_tier_def)
next
  case (Some x)
  have "tier_scan TIERS x p \<in> set (map name TIERS) \<union> {''Recovery''}"
    by (rule tier_scan_in_order)
  then show ?thesis using Some by (auto simp: base_tier_def TIERS_def)
qed

lemma tier_rank_eval:
  "tier_rank ''Peak'' = 0" "tier_rank ''Good'' = 1" "tier_rank ''Moderate'' = 2"
  "tier_rank ''Low'' = 3" "tier_rank ''Recovery'' = 4"
  by (simp_all add: tier_rank_def tier_order_eval)

lemma sr_cap_cases: "sr_cap s z \<in> {None, Some ''Low'', Some ''Recovery''}"
  by (auto simp: sr_cap_def split: option.splits)

text \<open>
  C2: the self-report override never promotes.  For every ready score, HRV percentage,
  stress and sleepiness value, \<open>_classify_tier\<close> returns (no exception), and the tier it
  returns with the self-report is never higher in the order Peak > Good > Moderate > Low >
  Recovery than the tier returned without it (a larger \<open>tier_rank\<close> is a lower tier);
  with stress > 7 and sleepiness > 7 the result is Recovery, and with stress > 5 and
  sleepiness > 5 the result is Low or lower.
\<close>

theorem C2_override_never_promotes:
  "\<exists>t0 t. classify_tier r p None None = Inr t0 \<and>
          classify_tier r p stress sleepiness = Inr t \<and>
          tier_rank t0 \<le> tier_rank t \<and>
          (stress = Some s \<and> sleepiness = Some z \<and> s > 7 \<and> z > 7 \<longrightarrow> t = ''Recovery'') \<and>
          (stress = Some s \<and> sleepiness = Some z \<and> s > 5 \<and> z > 5 \<longrightarrow>
             tier_rank ''Low'' \<le> tier_rank t)"
proof -
  have b: "base_tier r p \<in> {''Peak'', ''Good'', ''Moderate'', ''Low'', ''Recovery''}"
    by (rule base_tier_cases)
  have c: "sr_cap stress sleepiness \<in> {None, Some ''Low'', Some ''Recovery''}"
    by (rule sr_cap_cases)
  have c7: "stress = Some s \<and> sleepiness = Some z \<and> s > 7 \<and> z > 7 \<Longrightarrow>
        sr_cap stress sleepiness = Some ''Recovery''"
    by (auto simp: sr_cap_def)
  have c5: "stress = Some s \<and> sleepiness = Some z \<and> s > 5 \<and> z > 5 \<Longrightarrow>
        sr_cap stress sleepiness \<in> {Some ''Low'', Some ''Recovery''}"
    by (auto simp: sr_cap_def)
  have n: "sr_cap None None = None" by (simp add: sr_cap_def)
  from b c c7 c5 show ?thesis
    unfolding classify_tier_def n Let_def
    by (auto simp: tier_order_eval tier_rank_eval)
qed

theorem C2_witness:
  "classify_tier (Some (Fin 180)) (Some 95) None None = Inr ''Peak'' \<and>
   classify_tier (Some (Fin 180)) (Some 95) (Some 8) (Some 8) = Inr ''Recovery'' \<and>
   tier_rank ''Peak'' \<le> tier_rank ''Recovery'' \<and>
   (Some (8::real) = Some 8 \<and> (8::real) > 7 \<and> (8::real) > 5) \<and>
   tier_rank ''Low'' \<le> tier_rank ''Recovery''"
  using C2_override_never_promotes [of "Some (Fin 180)" "Some 95" "Some 8" "Some 8" 8 8]
  by (simp add: classify_tier_def base_tier_def sr_cap_def TIERS_def tier_order_eval tier_rank_eval
      fge_def)

section \<open>Properties of the strain scorer\<close>

lemma py_round_nonneg: "0 \<le> x \<Longrightarrow> 0 \<le> py_round x"
  by (auto simp: py_round_def Let_def)

lemma py_round1_nonneg: "0 \<le> x \<Longrightarrow> 0 \<le> py_round1 x"
  using py_round_nonneg [of "x * 10"] by (simp add: py_round1_def)

lemma raw_to_borg_range:
  assumes "0 \<le> scale" and "0 < divisor"
  shows "0 \<le> raw_to_borg raw divisor scale \<and> raw_to_borg raw divisor scale \<le> 21"
proof (cases "raw \<le> 0")
  case True
  then show ?thesis by (simp add: raw_to_borg_def)
next
  case False
  then have "0 < raw / divisor" using assms by simp
  then have "0 \<le> ln (1 + raw / divisor)" by simp
  then have "0 \<le> scale * ln (1 + raw / divisor)" using assms by simp
  then have "0 \<le> py_round1 (scale * ln (1 + raw / divisor))" by (rule py_round1_nonneg)
  then show ?thesis using False by (simp add: raw_to_borg_def STRAIN_CAP_def Let_def)
qed

lemma strain_day_range:
  "0 \<le> strain_score (strain_day m d rows) \<and> strain_score (strain_day m d rows) \<le> 21 \<and>
   0 \<le> cardiovascular_strain (strain_day m d rows) \<and>
   cardiovascular_strain (strain_day m d rows) \<le> 21 \<and>
   0 \<le> muscular_strain (strain_day m d rows) \<and> muscular_strain (strain_day m d rows) \<le> 21"
proof -
  have cv: "\<And>raw. 0 \<le> raw_to_borg raw CV_DIVISOR CV_SCALE \<and> raw_to_borg raw CV_DIVISOR CV_SCALE \<le> 21"
    by (rule raw_to_borg_range) (simp_all add: CV_DIVISOR_def CV_SCALE_def)
  have mu: "\<And>raw. 0 \<le> raw_to_borg raw MUSC_DIVISOR MUSC_SCALE \<and> raw_to_borg raw MUSC_DIVISOR MUSC_SCALE \<le> 21"
    by (rule raw_to_borg_range) (simp_all add: MUSC_DIVISOR_def MUSC_SCALE_def)
  have comb: "\<And>a b. 0 \<le> a \<Longrightarrow> 0 \<le> b \<Longrightarrow> 0 \<le> min STRAIN_CAP (py_round1 (a * 0.7 + b * 0.3)) \<and>
      min STRAIN_CAP (py_round1 (a * 0.7 + b * 0.3)) \<le> 21"
  proof -
    fix a b :: real assume "0 \<le> a" "0 \<le> b"
    then have "0 \<le> a * 0.7 + b * 0.3" by simp
    then have "0 \<le> py_round1 (a * 0.7 + b * 0.3)" by (rule py_round1_nonneg)
    then show "0 \<le> min STRAIN_CAP (py_round1 (a * 0.7 + b * 0.3)) \<and>
      min STRAIN_CAP (py_round1 (a * 0.7 + b * 0.3)) \<le> 21"
      by (simp add: STRAIN_CAP_def)
  qed
  show ?thesis
    unfolding strain_day_def Let_def
    using cv mu comb by (simp add: STRAIN_CAP_def)
qed

lemma analyse_strain_days:
  "d \<in> set (daily_strain_list (analyse_strain df)) \<Longrightarrow> \<exists>m k rows. d = strain_day m k rows"
  by (auto simp: analyse_strain_def Let_def split: if_splits)

lemma strain_in_range:
  assumes "d \<in> set (daily_strain_list (analyse_strain df))"
  shows "0 \<le> strain_score d \<and> strain_score d \<le> 21 \<and>
         0 \<le> cardiovascular_strain d \<and> cardiovascular_strain d \<le> 21 \<and>
         0 \<le> muscular_strain d \<and> muscular_strain d \<le> 21"
  using analyse_strain_days [OF assms] strain_day_range by blast

section \<open>Properties of the readiness tier assignment\<close>

lemma classify_tier_total:
  "\<exists>t. classify_tier r p s z = Inr t \<and> t \<in> {''Peak'', ''Good'', ''Moderate'', ''Low'', ''Recovery''}"
proof -
  have b: "base_tier r p \<in> {''Peak'', ''Good'', ''Moderate'', ''Low'', ''Recovery''}"
    by (rule base_tier_cases)
  have c: "sr_cap s z \<in> {None, Some ''Low'', Some ''Recovery''}"
    by (rule sr_cap_cases)
  from b c show ?thesis
    unfolding classify_tier_def Let_def
    by (auto simp: tier_order_eval)
qed

lemma find_tier_row:
  "t \<in> {''Peak'', ''Good'', ''Moderate'', ''Low'', ''Recovery''} \<Longrightarrow>
   \<exists>row. find (\<lambda>x. name x = t) TIERS = Some row"
  by (auto simp: TIERS_def)

lemma tier_entry_for_total:
  "\<exists>e. tier_entry_for daily_sr p day = Inr e \<and>
       te_tier e \<in> {''Peak'', ''Good'', ''Moderate'', ''Low'', ''Recovery''} \<and>
       classify_tier (dr_mean day) p
         (fst (self_report_for daily_sr (take 10 (dr_date day))))
         (snd (self_report_for daily_sr (take 10 (dr_date day)))) = Inr (te_tier e)"
proof -
  obtain s z where sz: "self_report_for daily_sr (take 10 (dr_date day)) = (s, z)"
    by (cases "self_report_for daily_sr (take 10 (dr_date day))") auto
  obtain t where t: "classify_tier (dr_mean day) p s z = Inr t"
    and tin: "t \<in> {''Peak'', ''Good'', ''Moderate'', ''Low'', ''Recovery''}"
    using classify_tier_total by blast
  obtain row where row: "find (\<lambda>x. name x = t) TIERS = Some row"
    using find_tier_row [OF tin] by blast
  show ?thesis
    using sz t tin row by (simp add: tier_entry_for_def Let_def)
qed

lemma set_alist_update: "set (AList.update k v al) \<subseteq> insert (k, v) (set al)"
  by (induction al) auto

lemma assign_loop_entries:
  "\<exists>out. assign_loop days daily_sr p acc = Inr out \<and>
     (\<forall>(d, e) \<in> set out. (d, e) \<in> set acc \<or>
        (\<exists>day \<in> set days. d = take 10 (dr_date day) \<and> tier_entry_for daily_sr p day = Inr e))"
proof (induction days arbitrary: acc)
  case Nil
  then show ?case by auto
next
  case (Cons day days)
  obtain e where e: "tier_entry_for daily_sr p day = Inr e"
    using tier_entry_for_total by blast
  let ?acc = "AList.update (take 10 (dr_date day)) e acc"
  obtain out where out: "assign_loop days daily_sr p ?acc = Inr out"
    and inv: "\<forall>(d, x) \<in> set out. (d, x) \<in> set ?acc \<or>
        (\<exists>day' \<in> set days. d = take 10 (dr_date day') \<and> tier_entry_for daily_sr p day' = Inr x)"
    using Cons.IH [of ?acc] by blast
  have "assign_loop (day # days) daily_sr p acc = Inr out"
    using e out by simp
  moreover have "\<forall>(d, x) \<in> set out. (d, x) \<in> set acc \<or>
        (\<exists>day' \<in> set (day # days). d = take 10 (dr_date day') \<and>
           tier_entry_for daily_sr p day' = Inr x)"
  proof (clarify)
    fix d x assume dx: "(d, x) \<in> set out" and notacc: "\<not> (\<exists>day' \<in> set (day # days). d = take 10 (dr_date day') \<and>
           tier_entry_for daily_sr p day' = Inr x)"
    from inv dx have "(d, x) \<in> set ?acc \<or>
        (\<exists>day' \<in> set days. d = take 10 (dr_date day') \<and> tier_entry_for daily_sr p day' = Inr x)"
      by blast
    with notacc have "(d, x) \<in> set ?acc" by auto
    with set_alist_update [of "take 10 (dr_date day)" e acc]
    have "(d, x) = (take 10 (dr_date day), e) \<or> (d, x) \<in> set acc" by auto
    with notacc e show "(d, x) \<in> set acc" by auto
  qed
  ultimately show ?case by blast
qed

lemma assign_readiness_tiers_entries:
  "\<exists>out. assign_readiness_tiers res = Inr out \<and>
     (\<forall>(d, e) \<in> set (tiers_by_date out).
        \<exists>day \<in> set (perf_daily_ready res). d = take 10 (dr_date day) \<and>
          tier_entry_for (perf_daily_self_report res) (hrv_rmssd_pct_baseline res) day = Inr e)"
proof -
  obtain tbd where tbd: "assign_loop (perf_daily_ready res) (perf_daily_self_report res)
        (hrv_rmssd_pct_baseline res) [] = Inr tbd"
    and inv: "\<forall>(d, e) \<in> set tbd. (d, e) \<in> set [] \<or>
        (\<exists>day \<in> set (perf_daily_ready res). d = take 10 (dr_date day) \<and>
          tier_entry_for (perf_daily_self_report res) (hrv_rmssd_pct_baseline res) day = Inr e)"
    using assign_loop_entries [of "perf_daily_ready res" "perf_daily_self_report res"
        "hrv_rmssd_pct_baseline res" "[]"] by blast
  show ?thesis
    using tbd inv by (auto simp: assign_readiness_tiers_def Let_def)
qed

section \<open>Strain range, tier names and the HRV value of the tier decision\<close>

lemma ex_strain_frame_eval:
  "analyse_strain ex_strain_frame =
     \<lparr>daily_strain_list = [strain_day (797 / 5) 0 ex_strain_frame], max_hr_est = Some 159\<rparr>"
  by (simp add: analyse_strain_def wear_on_def ex_strain_frame_def ex_epoch_def
      estimate_max_hr_def dropna_def List.map_filter_def quantile_def groupby_def date_of_def
      py_round0_def py_round_def Let_def)

lemmas readiness_eval_defs =
  assign_readiness_tiers_def perf_daily_ready_def perf_daily_self_report_def
  hrv_rmssd_pct_baseline_def tier_entry_for_def self_report_for_def classify_tier_def
  base_tier_def sr_cap_def TIERS_def tier_order_def TASK_MATRIX_def Let_def ex_hrv_def fge_def
  ex_low_suitability_def ex_good_suitability_def

lemma ex_results_one_day_eval:
  "assign_readiness_tiers ex_results_one_day =
     Inr \<lparr>tiers_by_date = [(''2024-03-01'', ex_entry_low)], latest_tier = Some ex_entry_low\<rparr>"
  by (simp add: readiness_eval_defs ex_results_one_day_def ex_entry_low_def)

lemma ex_results_two_days_eval:
  "assign_readiness_tiers ex_results_two_days =
     Inr \<lparr>tiers_by_date = [(''2024-03-01'', ex_entry_good), (''2024-03-02'', ex_entry_low2)],
          latest_tier = Some ex_entry_low2\<rparr>"
  by (simp add: readiness_eval_defs ex_results_two_days_def ex_entry_good_def ex_entry_low2_def)

text \<open>
  C1: for every sensor frame, each daily strain record of \<open>analyse_strain\<close> has
  \<open>strain_score\<close>, \<open>cardiovascular_strain\<close> and \<open>muscular_strain\<close> within [0, 21];
  and for every \<open>results\<close> input \<open>assign_readiness_tiers\<close> returns, and the tier name
  of every date it classifies is one of Peak, Good, Moderate, Low, Recovery.
\<close>

theorem C1_strain_range_and_tier_names:
  "(\<forall>d \<in> set (daily_strain_list (analyse_strain df)).
      0 \<le> strain_score d \<and> strain_score d \<le> 21 \<and>
      0 \<le> cardiovascular_strain d \<and> cardiovascular_strain d \<le> 21 \<and>
      0 \<le> muscular_strain d \<and> muscular_strain d \<le> 21) \<and>
   (\<exists>out. assign_readiness_tiers res = Inr out \<and>
      (\<forall>(dt, e) \<in> set (tiers_by_date out).
         te_tier e \<in> {''Peak'', ''Good'', ''Moderate'', ''Low'', ''Recovery''}))"
proof
  show "\<forall>d \<in> set (daily_strain_list (analyse_strain df)).
      0 \<le> strain_score d \<and> strain_score d \<le> 21 \<and>
      0 \<le> cardiovascular_strain d \<and> cardiovascular_strain d \<le> 21 \<and>
      0 \<le> muscular_strain d \<and> muscular_strain d \<le> 21"
    using strain_in_range by blast
next
  obtain out where out: "assign_readiness_tiers res = Inr out"
    and ent: "\<forall>(d, e) \<in> set (tiers_by_date out).
        \<exists>day \<in> set (perf_daily_ready res). d = take 10 (dr_date day) \<and>
          tier_entry_for (perf_daily_self_report res) (hrv_rmssd_pct_baseline res) day = Inr e"
    using assign_readiness_tiers_entries by blast
  have "te_tier e \<in> {''Peak'', ''Good'', ''Moderate'', ''Low'', ''Recovery''}"
    if "(dt, e) \<in> set (tiers_by_date out)" for dt e
  proof -
    from ent that obtain day where "tier_entry_for (perf_daily_self_report res)
        (hrv_rmssd_pct_baseline res) day = Inr e" by blast
    with tier_entry_for_total [of "perf_daily_self_report res" "hrv_rmssd_pct_baseline res" day]
    show ?thesis by auto
  qed
  then have "\<forall>(dt, e) \<in> set (tiers_by_date out).
         te_tier e \<in> {''Peak'', ''Good'', ''Moderate'', ''Low'', ''Recovery''}" by blast
  with out show "\<exists>out. assign_readiness_tiers res = Inr out \<and>
      (\<forall>(dt, e) \<in> set (tiers_by_date out).
         te_tier e \<in> {''Peak'', ''Good'', ''Moderate'', ''Low'', ''Recovery''})" by blast
qed


theorem C1_witness:
  "strain_day (797 / 5) 0 ex_strain_frame \<in> set (daily_strain_list (analyse_strain ex_strain_frame)) \<and>
   0 \<le> strain_score (strain_day (797 / 5) 0 ex_strain_frame) \<and>
   strain_score (strain_day (797 / 5) 0 ex_strain_frame) \<le> 21 \<and>
   0 \<le> cardiovascular_strain (strain_day (797 / 5) 0 ex_strain_frame) \<and>
   cardiovascular_strain (strain_day (797 / 5) 0 ex_strain_frame) \<le> 21 \<and>
   0 \<le> muscular_strain (strain_day (797 / 5) 0 ex_strain_frame) \<and>
   muscular_strain (strain_day (797 / 5) 0 ex_strain_frame) \<le> 21 \<and>
   assign_readiness_tiers ex_results_one_day =
     Inr \<lparr>tiers_by_date = [(''2024-03-01'', ex_entry_low)], latest_tier = Some ex_entry_low\<rparr> \<and>
   te_tier ex_entry_low \<in> {''Peak'', ''Good'', ''Moderate'', ''Low'', ''Recovery''}"
  using C1_strain_range_and_tier_names [of ex_strain_frame ex_results_one_day]
  unfolding ex_strain_frame_eval ex_results_one_day_eval
  by simp

text \<open>
  C10: \<open>assign_readiness_tiers\<close> decides every date against one HRV value.  For every
  \<open>results\<close> input, the tier stored for a date is the result of \<open>_classify_tier\<close> on a
  daily Ready entry of that date, that date's self-report, and the single field
  \<open>rmssd_pct_baseline\<close> of the HRV result, the same for all dates; the input holds no
  per-date HRV reading.  That field, as \<open>analyse_hrv\<close> computes it, is the morning RMSSD
  as a percentage of the RMSSD baseline, rounded to one decimal.
\<close>

theorem C10_single_rmssd_pct_for_all_dates:
  "(\<exists>out. assign_readiness_tiers res = Inr out \<and>
      (\<forall>(d, e) \<in> set (tiers_by_date out).
         \<exists>day \<in> set (perf_daily_ready res).
           d = take 10 (dr_date day) \<and>
           classify_tier (dr_mean day) (hrv_rmssd_pct_baseline res)
             (fst (self_report_for (perf_daily_self_report res) d))
             (snd (self_report_for (perf_daily_self_report res) d)) = Inr (te_tier e))) \<and>
   rmssd_pct_baseline (analyse_hrv df) =
     pct_of_baseline (morning_rmssd (analyse_hrv df)) (rmssd_baseline (analyse_hrv df))"
proof
  obtain out where out: "assign_readiness_tiers res = Inr out"
    and ent: "\<forall>(d, e) \<in> set (tiers_by_date out).
        \<exists>day \<in> set (perf_daily_ready res). d = take 10 (dr_date day) \<and>
          tier_entry_for (perf_daily_self_report res) (hrv_rmssd_pct_baseline res) day = Inr e"
    using assign_readiness_tiers_entries by blast
  have "\<exists>day \<in> set (perf_daily_ready res).
           d = take 10 (dr_date day) \<and>
           classify_tier (dr_mean day) (hrv_rmssd_pct_baseline res)
             (fst (self_report_for (perf_daily_self_report res) d))
             (snd (self_report_for (perf_daily_self_report res) d)) = Inr (te_tier e)"
    if "(d, e) \<in> set (tiers_by_date out)" for d e
  proof -
    from ent that obtain day where day: "day \<in> set (perf_daily_ready res)"
      and d: "d = take 10 (dr_date day)"
      and e: "tier_entry_for (perf_daily_self_report res) (hrv_rmssd_pct_baseline res) day = Inr e"
      by blast
    from tier_entry_for_total [of "perf_daily_self_report res" "hrv_rmssd_pct_baseline res" day] e
    have "classify_tier (dr_mean day) (hrv_rmssd_pct_baseline res)
         (fst (self_report_for (perf_daily_self_report res) (take 10 (dr_date day))))
         (snd (self_report_for (perf_daily_self_report res) (take 10 (dr_date day)))) = Inr (te_tier e)"
      by auto
    with day d show ?thesis by blast
  qed
  with out show "\<exists>out. assign_readiness_tiers res = Inr out \<and>
      (\<forall>(d, e) \<in> set (tiers_by_date out).
         \<exists>day \<in> set (perf_daily_ready res).
           d = take 10 (dr_date day) \<and>
           classify_tier (dr_mean day) (hrv_rmssd_pct_baseline res)
             (fst (self_report_for (perf_daily_self_report res) d))
             (snd (self_report_for (perf_daily_self_report res) d)) = Inr (te_tier e))"
    by blast
next
  show "rmssd_pct_baseline (analyse_hrv df) =
     pct_of_baseline (morning_rmssd (analyse_hrv df)) (rmssd_baseline (analyse_hrv df))"
    by (simp add: analyse_hrv_def Let_def pct_of_baseline_def)
qed

theorem C10_witness:
  "assign_readiness_tiers ex_results_two_days =
     Inr \<lparr>tiers_by_date = [(''2024-03-01'', ex_entry_good), (''2024-03-02'', ex_entry_low2)],
          latest_tier = Some ex_entry_low2\<rparr> \<and>
   hrv_rmssd_pct_baseline ex_results_two_days = Some 80 \<and>
   classify_tier (Some (Fin 180)) (Some 80) None None = Inr (te_tier ex_entry_good) \<and>
   classify_tier (Some (Fin 135)) (Some 80) None None = Inr (te_tier ex_entry_low2)"
  using C10_single_rmssd_pct_for_all_dates [of ex_results_two_days "[]"]
  unfolding ex_results_two_days_eval
  by (simp add: ex_results_two_days_def perf_daily_ready_def perf_daily_self_report_def
      hrv_rmssd_pct_baseline_def ex_hrv_def self_report_for_def)

section \<open>Properties of the sleep-debt and recovery trends\<close>

lemma compare_trend_cases: "compare_trend a b up down \<in> {up, down, ''stable''}"
  by (simp add: compare_trend_def)

lemma debt_trend_of_spec:
  assumes "debts \<noteq> []"
  shows "debt_trend_of debts = spec_debt_trend debts"
proof -
  have "length debts \<noteq> 0" using assms by simp
  then consider "length debts \<ge> 3" | "length debts = 2" | "length debts = 1"
    by linarith
  then show ?thesis
  proof cases
    case 1
    then show ?thesis
      by (simp add: debt_trend_of_def spec_debt_trend_def compare_trend_def Let_def)
  next
    case 2
    then show ?thesis
      by (simp add: debt_trend_of_def spec_debt_trend_def compare_trend_def Let_def)
  next
    case 3
    then obtain x where "debts = [x]" by (cases debts) auto
    then show ?thesis
      by (simp add: debt_trend_of_def spec_debt_trend_def compare_trend_def Let_def)
  qed
qed

lemma debt_trend_of_cases:
  "debt_trend_of debts \<in> {''worsening'', ''improving'', ''stable''}"
  using compare_trend_cases [of _ _ "''worsening''" "''improving''"]
  by (auto simp: debt_trend_of_def Let_def)

lemma recovery_trend_of_spec:
  assumes "scores \<noteq> []"
  shows "recovery_trend_of scores = spec_recovery_trend scores"
proof (cases "length scores \<ge> 2")
  case True
  let ?n = "length scores"
  have a: "hd (drop (?n - 2) scores) = scores ! (?n - 2)"
    using True by (simp add: hd_drop_conv_nth)
  have b: "last (drop (?n - 2) scores) = scores ! (?n - 1)"
  proof -
    have "last (drop (?n - 2) scores) = last scores" using True by simp
    also have "\<dots> = scores ! (?n - 1)" using assms by (rule last_conv_nth)
    finally show ?thesis .
  qed
  show ?thesis
    using True a b
    by (simp add: recovery_trend_of_def spec_recovery_trend_def compare_trend_def Let_def)
next
  case False
  moreover have "length scores \<noteq> 0" using assms by simp
  ultimately have "length scores = 1" by linarith
  then obtain x where "scores = [x]" by (cases scores) auto
  then show ?thesis
    by (simp add: recovery_trend_of_def spec_recovery_trend_def Let_def)
qed

lemma recovery_trend_of_cases:
  "recovery_trend_of scores \<in> {''improving'', ''declining'', ''stable''}"
  using compare_trend_cases [of _ _ "''improving''" "''declining''"]
  by (auto simp: recovery_trend_of_def)

text \<open>
  C7: for every non-empty primary-session history, the sleep-debt trend that
  \<open>_analyse_sleep_debt\<close> returns is one of worsening, improving, stable and equals the
  comparison of the last with the first of the most recent 3 debt readings (2 if fewer
  exist); the recovery trend that \<open>_analyse_recovery\<close> returns is one of improving,
  declining, stable and equals the comparison of the last two recovery readings.  A
  trend is absent from the result only when the history holds no reading of that kind.
\<close>

theorem C7_trends_match_recomputation:
  assumes "df \<noteq> []"
  shows "(case debt_trend (analyse_sleep_debt df) of
            None \<Rightarrow> dropna (map sleep_debt_min df) = []
          | Some t \<Rightarrow> t \<in> {''worsening'', ''improving'', ''stable''} \<and>
                      t = spec_debt_trend (dropna (map sleep_debt_min df))) \<and>
         (case rec_trend (analyse_recovery df) of
            None \<Rightarrow> dropna (map recovery_score df) = []
          | Some t \<Rightarrow> t \<in> {''improving'', ''declining'', ''stable''} \<and>
                      t = spec_recovery_trend (dropna (map recovery_score df)))"
proof
  show "case debt_trend (analyse_sleep_debt df) of
            None \<Rightarrow> dropna (map sleep_debt_min df) = []
          | Some t \<Rightarrow> t \<in> {''worsening'', ''improving'', ''stable''} \<and>
                      t = spec_debt_trend (dropna (map sleep_debt_min df))"
  proof (cases "dropna (map sleep_debt_min df) = []")
    case True
    then show ?thesis by (simp add: analyse_sleep_debt_def)
  next
    case False
    then show ?thesis
      using assms debt_trend_of_cases [of "dropna (map sleep_debt_min df)"]
        debt_trend_of_spec [OF False]
      by (simp add: analyse_sleep_debt_def Let_def)
  qed
next
  show "case rec_trend (analyse_recovery df) of
            None \<Rightarrow> dropna (map recovery_score df) = []
          | Some t \<Rightarrow> t \<in> {''improving'', ''declining'', ''stable''} \<and>
                      t = spec_recovery_trend (dropna (map recovery_score df))"
  proof (cases "dropna (map recovery_score df) = []")
    case True
    then show ?thesis by (simp add: analyse_recovery_def)
  next
    case False
    then show ?thesis
      using assms recovery_trend_of_cases [of "dropna (map recovery_score df)"]
        recovery_trend_of_spec [OF False]
      by (simp add: analyse_recovery_def Let_def)
  qed
qed

theorem C7_witness:
  "ex_history \<noteq> [] \<and>
   debt_trend (analyse_sleep_debt ex_history) = Some ''worsening'' \<and>
   spec_debt_trend [100, 120, 150] = ''worsening'' \<and>
   rec_trend (analyse_recovery ex_history) = Some ''declining'' \<and>
   spec_recovery_trend [50, 70, 60] = ''declining''"
proof -
  have ne: "ex_history \<noteq> []" by (simp add: ex_history_def)
  have d: "dropna (map sleep_debt_min ex_history) = [100, 120, 150]"
    by (simp add: ex_history_def ex_session_def dropna_def List.map_filter_def)
  have r: "dropna (map recovery_score ex_history) = [50, 70, 60]"
    by (simp add: ex_history_def ex_session_def dropna_def List.map_filter_def)
  have sd: "spec_debt_trend [100, 120, 150] = ''worsening''"
    by (simp add: spec_debt_trend_def)
  have sr: "spec_recovery_trend [50, 70, 60] = ''declining''"
    by (simp add: spec_recovery_trend_def)
  show ?thesis
    using C7_trends_match_recomputation [OF ne] ne sd sr
    unfolding d r
    by (auto split: option.splits)
qed

section \<open>Properties of the session classifier\<close>

lemma mark_naps_length: "length (mark_naps idxs k types) = length types"
  unfolding mark_naps_def by (induction idxs arbitrary: types) auto

lemma mark_naps_nth:
  "i < length types \<Longrightarrow>
   mark_naps idxs k types ! i = (if i \<in> set idxs \<and> i \<noteq> k then ''nap'' else types ! i)"
  unfolding mark_naps_def
proof (induction idxs arbitrary: types)
  case Nil
  then show ?case by simp
next
  case (Cons a idxs)
  show ?case
  proof (cases "a \<noteq> k")
    case True
    have len: "i < length (types[a := ''nap''])" using Cons.prems by simp
    show ?thesis
      using True Cons.IH [OF len] Cons.prems
      by (auto simp: nth_list_update)
  next
    case False
    then show ?thesis using Cons.IH [OF Cons.prems] by auto
  qed
qed

lemma idxmax_from_props:
  assumes "idxmax_from best ivs = Some (k, v)"
    and "\<And>j w. best = Some (j, w) \<Longrightarrow> P j w"
    and "\<And>i w. (i, Some w) \<in> set ivs \<Longrightarrow> P i w"
  shows "P k v"
  using assms
proof (induction best ivs rule: idxmax_from.induct)
  case (1 best)
  then show ?case by simp
next
  case (2 best i rest)
  then show ?case by simp
next
  case (3 best i x rest)
  show ?case
  proof (rule "3.IH")
    show "idxmax_from (case best of None \<Rightarrow> Some (i, x)
            | Some (j, w) \<Rightarrow> if w < x then Some (i, x) else Some (j, w)) rest = Some (k, v)"
      using "3.prems"(1) by simp
  next
    fix j w
    assume "(case best of None \<Rightarrow> Some (i, x)
            | Some (j, w) \<Rightarrow> if w < x then Some (i, x) else Some (j, w)) = Some (j, w)"
    then show "P j w"
      using "3.prems"(2) "3.prems"(3) [of i x]
      by (auto split: option.splits if_splits)
  next
    fix i' w
    assume "(i', Some w) \<in> set rest"
    then show "P i' w" using "3.prems"(3) by simp
  qed
qed

lemma idxmax_from_upper:
  assumes "idxmax_from best ivs = Some (k, v)"
  shows "(\<forall>j w. best = Some (j, w) \<longrightarrow> w \<le> v) \<and> (\<forall>i w. (i, Some w) \<in> set ivs \<longrightarrow> w \<le> v)"
  using assms
proof (induction best ivs rule: idxmax_from.induct)
  case (1 best)
  then show ?case by simp
next
  case (2 best i rest)
  then show ?case by simp
next
  case (3 best i x rest)
  let ?b = "case best of None \<Rightarrow> Some (i, x)
            | Some (j, w) \<Rightarrow> if w < x then Some (i, x) else Some (j, w)"
  have r: "idxmax_from ?b rest = Some (k, v)" using "3.prems" by simp
  from "3.IH" [OF r]
  have ih: "(\<forall>j w. ?b = Some (j, w) \<longrightarrow> w \<le> v) \<and> (\<forall>i w. (i, Some w) \<in> set rest \<longrightarrow> w \<le> v)" .
  show ?case
  proof (cases best)
    case None
    then show ?thesis using ih by auto
  next
    case (Some jw)
    obtain j w where jw: "jw = (j, w)" by (cases jw)
    show ?thesis
    proof (cases "w < x")
      case True
      then show ?thesis using ih Some jw by auto
    next
      case False
      then show ?thesis using ih Some jw by auto
    qed
  qed
qed

lemma idxmax_props:
  assumes "idxmax ivs = Inr k"
  shows "\<exists>v. (k, Some v) \<in> set ivs \<and> (\<forall>i w. (i, Some w) \<in> set ivs \<longrightarrow> w \<le> v)"
proof -
  obtain v where r: "idxmax_from None ivs = Some (k, v)"
    using assms by (auto simp: idxmax_def split: option.splits)
  have "(k, Some v) \<in> set ivs"
    by (rule idxmax_from_props [OF r, where P = "\<lambda>i w. (i, Some w) \<in> set ivs"]) auto
  moreover have "\<forall>i w. (i, Some w) \<in> set ivs \<longrightarrow> w \<le> v"
    using idxmax_from_upper [OF r] by blast
  ultimately show ?thesis by blast
qed


lemma mark_groups_props:
  assumes "mark_groups gs df types = Inr out"
  shows "length out = length types \<and>
         (\<forall>i < length types. types ! i = ''nap'' \<longrightarrow> out ! i = ''nap'') \<and>
         (\<forall>(d, idxs) \<in> set gs. 1 < length idxs \<longrightarrow>
            (\<exists>k. idxmax (map (\<lambda>i. (i, total_sleep_time_min (df ! i))) idxs) = Inr k \<and>
                 (\<forall>i \<in> set idxs. i \<noteq> k \<and> i < length types \<longrightarrow> out ! i = ''nap'')))"
  using assms
proof (induction gs arbitrary: types)
  case Nil
  then show ?case by simp
next
  case (Cons g gs)
  obtain d idxs where g: "g = (d, idxs)" by (cases g)
  show ?case
  proof (cases "1 < length idxs")
    case False
    then have "mark_groups gs df types = Inr out" using Cons.prems g by simp
    from Cons.IH [OF this] show ?thesis using False g by auto
  next
    case True
    then obtain k where k: "idxmax (map (\<lambda>i. (i, total_sleep_time_min (df ! i))) idxs) = Inr k"
      and rest: "mark_groups gs df (mark_naps idxs k types) = Inr out"
      using Cons.prems g by (auto split: sum.splits)
    let ?t = "mark_naps idxs k types"
    from Cons.IH [OF rest]
    have len: "length out = length ?t"
      and keep: "\<forall>i < length ?t. ?t ! i = ''nap'' \<longrightarrow> out ! i = ''nap''"
      and grp: "\<forall>(d, idxs) \<in> set gs. 1 < length idxs \<longrightarrow>
            (\<exists>k. idxmax (map (\<lambda>i. (i, total_sleep_time_min (df ! i))) idxs) = Inr k \<and>
                 (\<forall>i \<in> set idxs. i \<noteq> k \<and> i < length ?t \<longrightarrow> out ! i = ''nap''))"
      by blast+
    have l: "length ?t = length types" by (rule mark_naps_length)
    have a: "length out = length types" using len l by simp
    have b: "\<forall>i < length types. types ! i = ''nap'' \<longrightarrow> out ! i = ''nap''"
      using keep l mark_naps_nth [of _ types idxs k] by auto
    have c: "\<forall>i \<in> set idxs. i \<noteq> k \<and> i < length types \<longrightarrow> out ! i = ''nap''"
      using keep l mark_naps_nth [of _ types idxs k] by auto
    show ?thesis
      using a b c k grp g l by auto
  qed
qed

lemma keyed_of_filter:
  "map snd (filter (\<lambda>r. fst r = d) (keyed_of df idxs)) =
   filter (\<lambda>i. night_date (df ! i) = Some d) idxs"
  unfolding keyed_of_def
  by (induction idxs) (auto simp: List.map_filter_simps split: option.splits)

lemma keyed_of_keys:
  "d \<in> set (map fst (keyed_of df idxs)) \<longleftrightarrow> (\<exists>i \<in> set idxs. night_date (df ! i) = Some d)"
  unfolding keyed_of_def
  by (induction idxs) (auto simp: List.map_filter_simps split: option.splits)

lemma night_groups_member:
  "(d, idxs) \<in> set (night_groups df) \<longleftrightarrow>
   (\<exists>i < length df. night_date (df ! i) = Some d) \<and>
   idxs = filter (\<lambda>i. night_date (df ! i) = Some d) [0..<length df]"
proof -
  have "night_groups df =
     map (\<lambda>k. (k, map snd (filter (\<lambda>r. fst r = k) (keyed_of df [0..<length df]))))
       (sort (remdups (map fst (keyed_of df [0..<length df]))))"
    by (simp add: night_groups_def groupby_def comp_def)
  then have "set (night_groups df) =
     (\<lambda>k. (k, filter (\<lambda>i. night_date (df ! i) = Some k) [0..<length df])) `
       set (map fst (keyed_of df [0..<length df]))"
    by (simp add: keyed_of_filter)
  then have "(d, idxs) \<in> set (night_groups df) \<longleftrightarrow>
      d \<in> set (map fst (keyed_of df [0..<length df])) \<and>
      idxs = filter (\<lambda>i. night_date (df ! i) = Some d) [0..<length df]"
    by auto
  moreover have "d \<in> set (map fst (keyed_of df [0..<length df])) \<longleftrightarrow>
      (\<exists>i < length df. night_date (df ! i) = Some d)"
    unfolding keyed_of_keys by auto
  ultimately show ?thesis by simp
qed

lemma two_members_length:
  "i \<in> set xs \<Longrightarrow> j \<in> set xs \<Longrightarrow> i \<noteq> j \<Longrightarrow> 1 < length xs"
  by (cases xs; cases "tl xs") auto


lemma idxmax_from_some: "best \<noteq> None \<Longrightarrow> idxmax_from best ivs \<noteq> None"
  by (induction best ivs rule: idxmax_from.induct) (auto split: option.splits)

lemma idxmax_total:
  assumes "ivs \<noteq> []" and "\<forall>(i, v) \<in> set ivs. v \<noteq> None"
  shows "\<exists>k. idxmax ivs = Inr k"
proof -
  obtain i v rest where ivs: "ivs = (i, Some v) # rest"
    using assms by (cases ivs) auto
  have "idxmax_from None ivs = idxmax_from (Some (i, v)) rest"
    by (simp add: ivs)
  moreover have "idxmax_from (Some (i, v)) rest \<noteq> None"
    by (rule idxmax_from_some) simp
  ultimately show ?thesis
    by (auto simp: idxmax_def split: option.splits)
qed

lemma mark_groups_total:
  assumes "\<forall>(d, idxs) \<in> set gs. \<forall>i \<in> set idxs. total_sleep_time_min (df ! i) \<noteq> None"
  shows "\<exists>out. mark_groups gs df types = Inr out"
  using assms
proof (induction gs arbitrary: types)
  case Nil
  then show ?case by simp
next
  case (Cons g gs)
  obtain d idxs where g: "g = (d, idxs)" by (cases g)
  have rest: "\<forall>(d, idxs) \<in> set gs. \<forall>i \<in> set idxs. total_sleep_time_min (df ! i) \<noteq> None"
    using Cons.prems by simp
  show ?case
  proof (cases "1 < length idxs")
    case False
    then show ?thesis using Cons.IH [OF rest] g by simp
  next
    case True
    have "\<exists>k. idxmax (map (\<lambda>i. (i, total_sleep_time_min (df ! i))) idxs) = Inr k"
    proof (rule idxmax_total)
      show "map (\<lambda>i. (i, total_sleep_time_min (df ! i))) idxs \<noteq> []" using True by auto
      show "\<forall>(i, v) \<in> set (map (\<lambda>i. (i, total_sleep_time_min (df ! i))) idxs). v \<noteq> None"
        using Cons.prems g by auto
    qed
    then obtain k where "idxmax (map (\<lambda>i. (i, total_sleep_time_min (df ! i))) idxs) = Inr k"
      by blast
    then show ?thesis using True Cons.IH [OF rest] g by simp
  qed
qed

lemma classify_session_type_total:
  assumes "\<forall>s \<in> set df. total_sleep_time_min s \<noteq> None"
  shows "\<exists>types. classify_session_type df = Inr types"
proof -
  have "\<forall>(d, idxs) \<in> set (night_groups df). \<forall>i \<in> set idxs. total_sleep_time_min (df ! i) \<noteq> None"
    using assms night_groups_member [of _ _ df] by auto
  then show ?thesis
    unfolding classify_session_type_def Let_def by (rule mark_groups_total)
qed

lemmas session_eval_defs =
  classify_session_type_def night_groups_def keyed_of_def groupby_def nap_hour_def hour_of_def
  date_of_def idxmax_def mark_naps_def List.map_filter_def ex_session_def Let_def

text \<open>
  C5 (as stated) fails in its example: two sessions of one night date with 400 and 90
  minutes of sleep are both tagged nap when the 400-minute session starts at 13:00 local
  time, since the start-hour rule applies to it.
\<close>

theorem C5_counterexample:
  "classify_session_type ex_day_sleeper = Inr [''nap'', ''nap'']"
  by (simp add: session_eval_defs ex_day_sleeper_def)

lemma two_sessions_eval:
  assumes "night_date s1 = Some d" and "night_date s2 = Some d"
    and "total_sleep_time_min s1 = Some 400" and "total_sleep_time_min s2 = Some 90"
  shows "classify_session_type [s1, s2] =
           Inr [if nap_hour s1 then ''nap'' else ''primary'', ''nap'']"
  using assms
  by (simp add: classify_session_type_def night_groups_def keyed_of_def groupby_def
      idxmax_def mark_naps_def List.map_filter_def Let_def)

text \<open>
  C5 (amended): whenever \<open>_classify_session_type\<close> returns, it tags as nap every session
  whose local start hour is between 10 and 17 inclusive; and whenever two or more sessions
  share a night-date key, one of them holds the largest total sleep time of that key and
  every other session of the key is tagged nap.  In particular two same-night sessions of
  400 and 90 minutes total sleep, the 400-minute one not starting in local hours 10 to 17,
  are classified primary and nap respectively.
\<close>

theorem C5_session_classification:
  "(classify_session_type df = Inr types \<longrightarrow>
      length types = length df \<and>
      (\<forall>i < length df. nap_hour (df ! i) \<longrightarrow> types ! i = ''nap'') \<and>
      (\<forall>d i j. i < length df \<and> j < length df \<and> i \<noteq> j \<and>
          night_date (df ! i) = Some d \<and> night_date (df ! j) = Some d \<longrightarrow>
          (\<exists>k < length df. night_date (df ! k) = Some d \<and>
             (\<exists>v. total_sleep_time_min (df ! k) = Some v \<and>
                (\<forall>m w. m < length df \<and> night_date (df ! m) = Some d \<and>
                   total_sleep_time_min (df ! m) = Some w \<longrightarrow> w \<le> v)) \<and>
             (\<forall>m < length df. night_date (df ! m) = Some d \<and> m \<noteq> k \<longrightarrow>
                types ! m = ''nap'')))) \<and>
   (night_date s1 = Some n \<and> night_date s2 = Some n \<and>
    total_sleep_time_min s1 = Some 400 \<and> total_sleep_time_min s2 = Some 90 \<and>
    \<not> nap_hour s1 \<longrightarrow>
      classify_session_type [s1, s2] = Inr [''primary'', ''nap''])"
proof (intro conjI impI)
  assume r: "classify_session_type df = Inr types"
  let ?t0 = "map (\<lambda>s. if nap_hour s then ''nap'' else ''primary'') df"
  have mg: "mark_groups (night_groups df) df ?t0 = Inr types"
    using r by (simp add: classify_session_type_def)
  note props = mark_groups_props [OF mg]
  show len: "length types = length df" using props by simp
  show "\<forall>i < length df. nap_hour (df ! i) \<longrightarrow> types ! i = ''nap''"
    using props by simp
  show "\<forall>d i j. i < length df \<and> j < length df \<and> i \<noteq> j \<and>
          night_date (df ! i) = Some d \<and> night_date (df ! j) = Some d \<longrightarrow>
          (\<exists>k < length df. night_date (df ! k) = Some d \<and>
             (\<exists>v. total_sleep_time_min (df ! k) = Some v \<and>
                (\<forall>m w. m < length df \<and> night_date (df ! m) = Some d \<and>
                   total_sleep_time_min (df ! m) = Some w \<longrightarrow> w \<le> v)) \<and>
             (\<forall>m < length df. night_date (df ! m) = Some d \<and> m \<noteq> k \<longrightarrow>
                types ! m = ''nap''))"
  proof (intro allI impI)
    fix d i j
    assume h: "i < length df \<and> j < length df \<and> i \<noteq> j \<and>
          night_date (df ! i) = Some d \<and> night_date (df ! j) = Some d"
    let ?idxs = "filter (\<lambda>i. night_date (df ! i) = Some d) [0..<length df]"
    have mem: "(d, ?idxs) \<in> set (night_groups df)"
      using h night_groups_member [of d ?idxs df] by blast
    have iin: "i \<in> set ?idxs" and jin: "j \<in> set ?idxs" using h by auto
    have long: "1 < length ?idxs"
      using two_members_length [OF iin jin] h by blast
    from props mem long obtain k
      where k: "idxmax (map (\<lambda>i. (i, total_sleep_time_min (df ! i))) ?idxs) = Inr k"
        and naps: "\<forall>i \<in> set ?idxs. i \<noteq> k \<and> i < length ?t0 \<longrightarrow> types ! i = ''nap''"
      by fastforce
    from idxmax_props [OF k] obtain v
      where kin: "(k, Some v) \<in> set (map (\<lambda>i. (i, total_sleep_time_min (df ! i))) ?idxs)"
        and mx: "\<forall>i w. (i, Some w) \<in> set (map (\<lambda>i. (i, total_sleep_time_min (df ! i))) ?idxs)
                  \<longrightarrow> w \<le> v"
      by blast
    have k1: "k < length df" and k2: "night_date (df ! k) = Some d"
      and k3: "total_sleep_time_min (df ! k) = Some v"
      using kin by auto
    have k4: "\<forall>m w. m < length df \<and> night_date (df ! m) = Some d \<and>
                   total_sleep_time_min (df ! m) = Some w \<longrightarrow> w \<le> v"
    proof (intro allI impI)
      fix m w
      assume a: "m < length df \<and> night_date (df ! m) = Some d \<and>
                   total_sleep_time_min (df ! m) = Some w"
      then have "m \<in> set ?idxs" by simp
      then have "(m, Some w) \<in> set (map (\<lambda>i. (i, total_sleep_time_min (df ! i))) ?idxs)"
        using a by force
      with mx show "w \<le> v" by blast
    qed
    have k5: "\<forall>m < length df. night_date (df ! m) = Some d \<and> m \<noteq> k \<longrightarrow> types ! m = ''nap''"
      using naps by simp
    show "\<exists>k < length df. night_date (df ! k) = Some d \<and>
             (\<exists>v. total_sleep_time_min (df ! k) = Some v \<and>
                (\<forall>m w. m < length df \<and> night_date (df ! m) = Some d \<and>
                   total_sleep_time_min (df ! m) = Some w \<longrightarrow> w \<le> v)) \<and>
             (\<forall>m < length df. night_date (df ! m) = Some d \<and> m \<noteq> k \<longrightarrow>
                types ! m = ''nap'')"
      using k1 k2 k3 k4 k5 by blast
  qed
next
  assume "night_date s1 = Some n \<and> night_date s2 = Some n \<and>
    total_sleep_time_min s1 = Some 400 \<and> total_sleep_time_min s2 = Some 90 \<and>
    \<not> nap_hour s1"
  then show "classify_session_type [s1, s2] = Inr [''primary'', ''nap'']"
    using two_sessions_eval [of s1 n s2] by simp
qed


theorem C5_witness:
  "classify_session_type ex_night_and_nap = Inr [''primary'', ''nap''] \<and>
   nap_hour (ex_night_and_nap ! 1) \<and> [''primary'', ''nap''] ! 1 = ''nap'' \<and>
   night_date (ex_night_and_nap ! 0) = Some 0 \<and> night_date (ex_night_and_nap ! 1) = Some 0 \<and>
   total_sleep_time_min (ex_night_and_nap ! 0) = Some 400 \<and>
   total_sleep_time_min (ex_night_and_nap ! 1) = Some 90 \<and>
   \<not> nap_hour (ex_night_and_nap ! 0)"
  using C5_session_classification
    [of ex_night_and_nap "[''primary'', ''nap'']" "ex_night_and_nap ! 0" 0 "ex_night_and_nap ! 1"]
  by (simp add: ex_night_and_nap_def ex_session_def nap_hour_def hour_of_def date_of_def)

section \<open>Insufficient data: circadian fit and HRV slope\<close>






section \<open>Properties of the pattern detector\<close>



lemma deltas_of_6:
  "deltas_of [a, b, c, d, e, f] = [fsub b a, fsub c b, fsub d c, fsub e d, fsub f e]"
  by (simp add: deltas_of_def upt_rec)

lemma present_means_simps:
  "present_means [] = []"
  "present_means (day # days) =
     (case dr_mean day of None \<Rightarrow> present_means days | Some m \<Rightarrow> m # present_means days)"
  by (simp_all add: present_means_def List.map_filter_simps split: option.split)


text \<open>A delta is negative exactly where a number is followed by a smaller number.\<close>

lemma negative_delta_iff:
  "flt (fsub y x) 0 \<longleftrightarrow> (\<exists>a b. x = Fin a \<and> y = Fin b \<and> b < a)"
  by (cases x; cases y) (auto simp: flt_def fsub_def)

text \<open>The count of the code is the count of the specification.\<close>

lemma count_negative_deltas:
  "count_negative (deltas_of means) = card (declining_steps means)"
proof -
  let ?n = "length means - 1"
  let ?p = "\<lambda>i. flt (fsub (means ! (i + 1)) (means ! i)) 0"
  have "count_negative (deltas_of means) = length (filter ?p [0..<?n])"
    by (simp add: count_negative_def deltas_of_def filter_map comp_def)
  also have "\<dots> = card {i. i < length [0..<?n] \<and> ?p ([0..<?n] ! i)}"
    by (rule length_filter_conv_card)
  also have "{i. i < length [0..<?n] \<and> ?p ([0..<?n] ! i)} = declining_steps means"
    by (auto simp: declining_steps_def negative_delta_iff)
  finally show ?thesis .
qed

text \<open>When rule 1 fires, in full.\<close>

lemma readiness_debt_rule_fires_iff:
  "readiness_debt_rule res \<noteq> [] \<longleftrightarrow>
     5 \<le> length (perf_daily_ready res) \<and>
     5 \<le> length (present_means (last7 (perf_daily_ready res))) \<and>
     3 \<le> card (declining_steps (present_means (last7 (perf_daily_ready res))))"
  by (simp add: readiness_debt_rule_def Let_def count_negative_deltas)

text \<open>A \<open>NaN\<close> mean takes the two deltas next to it out of the count: the six-day series
  160, 155, NaN, 148, 140, 145 has two negative deltas and rule 1 emits nothing.\<close>

lemma nan_mean_is_kept:
  "present_means (last7 (perf_daily_ready ex_nan_day)) =
     [Fin 160, Fin 155, NaN, Fin 148, Fin 140, Fin 145] \<and>
   count_negative (deltas_of [Fin 160, Fin 155, NaN, Fin 148, Fin 140, Fin 145]) = 2 \<and>
   detect_patterns [] ex_nan_day = []"
  by (simp add: deltas_of_6 detect_patterns_def readiness_debt_rule_def ex_nan_day_def
      ex_series_def perf_daily_ready_def last7_def present_means_simps count_negative_def
      flt_def fsub_def)




section \<open>Properties of the agent payload\<close>

text \<open>What \<open>_strip_nulls\<close> does guarantee: after stripping, no dictionary entry at any
  depth holds \<open>None\<close> or an empty dictionary.\<close>

lemma strip_nulls_no_null_or_empty_dict:
  "no_null_or_empty_dict_entry (strip_nulls j)"
proof (induction j rule: strip_nulls.induct)
  case (1 kvs)
  then show ?case by (auto simp: list_all_iff Let_def)
next
  case (2 items)
  then show ?case by (auto simp: list_all_iff)
qed simp_all

lemma payload_has_schema_version:
  "\<exists>rest. build_agent_payload parts = JDict ((''schema_version'', JStr ''3.0'') # rest)"
  by (simp add: build_agent_payload_def Let_def)

text \<open>
  C9 fails on the code: \<open>_strip_nulls\<close> drops a dictionary entry whose stripped value is
  \<open>None\<close> or an empty dictionary, but keeps one whose value is an empty list, although its
  docstring promises to remove "keys whose values are None or empty dicts/lists".  With no
  data supplied no alert rule fires, \<open>_build_alerts\<close> returns the empty list, and the
  payload of \<open>build_agent_payload\<close> holds the entry \<open>alerts: []\<close>.
\<close>

theorem C9_empty_alerts_list_survives:
  "build_agent_payload ex_no_data_parts = ex_no_data_payload \<and>
   \<not> no_null_or_empty_entry (build_agent_payload ex_no_data_parts)"
  by (simp add: build_agent_payload_def ex_no_data_parts_def ex_no_data_payload_def)

section \<open>Properties of the sleep detector\<close>

lemma ex_spike_wear: "sort_key datetime (wear_on ex_spike_night) = ex_spike_night"
  by (simp add: wear_on_def ex_spike_night_def ex_sleep_epoch_def)

lemma ex_spike_groups:
  "groupby (\<lambda>(i, e). night_date_of e) (zip [0..<length ex_spike_night] ex_spike_night) =
     [(0, zip [0..<13] ex_spike_night)]"
  by (simp add: groupby_def ex_spike_night_def ex_sleep_epoch_def night_date_of_def date_of_def
      upt_rec)

lemma ex_spike_onset: "find_onset (zip [0..<13] ex_spike_night) = Some 82800"
  by (simp add: find_onset_def ex_spike_night_def ex_sleep_epoch_def hour_of_def lt_opt_def
      gt_opt_def upt_rec Let_def)

lemma ex_spike_offset: "find_offset (zip [0..<13] ex_spike_night) 82800 = 88200"
  by (simp add: find_offset_def ex_spike_night_def ex_sleep_epoch_def ge_opt_def upt_rec Let_def
      wake_loop.simps)

lemma ex_spike_spec_offset: "spec_offset (zip [0..<13] ex_spike_night) 82800 = 90000"
  by (simp add: spec_offset_def starts_wake_run_def ex_spike_night_def ex_sleep_epoch_def
      ge_opt_def upt_rec Let_def)


lemma ex_spike_period:
  "sleep_period (zip [0..<13] ex_spike_night) 82800 88200 = take 10 (zip [0..<13] ex_spike_night)"
  by (simp add: sleep_period_def ex_spike_night_def ex_sleep_epoch_def upt_rec)

lemma ex_spike_hr:
  "map (\<lambda>(i, e). heart_rate_mean e) (take 10 (zip [0..<13] ex_spike_night)) =
     [Some 60, Some 60, Some 60, Some 60, Some 60, Some 60, Some 60, Some 60, Some 60, Some 75]"
  by (simp add: ex_spike_night_def ex_sleep_epoch_def upt_rec)

lemma dropna_simps:
  "dropna [] = []"
  "dropna (None # xs) = dropna xs"
  "dropna (Some v # xs) = v # dropna xs"
  by (simp_all add: dropna_def List.map_filter_simps)

lemma ex_spike_rolling:
  "dropna (rolling_mean 60 10
     [Some 60, Some 60, Some 60, Some 60, Some 60, Some 60, Some 60, Some 60, Some 60, Some 75]) =
     [123 / 2]"
  by (simp add: rolling_mean_def dropna_simps mean_of_def upt_rec Let_def)


lemma ex_spike_nadir:
  "hr_nadir_of (take 10 (zip [0..<13] ex_spike_night)) = Some (123 / 2)"
  unfolding hr_nadir_of_def ex_spike_hr ex_spike_rolling by simp

lemma ex_spike_episodes:
  "wake_episodes_of (take 10 (zip [0..<13] ex_spike_night)) = 0"
  by (simp add: wake_episodes_of_def ex_spike_night_def ex_sleep_epoch_def gt_opt_def
      acc_energy_def dropna_simps upt_rec)

lemma py_round_of_int: "py_round (of_int n) = n"
  by (simp add: py_round_def)

lemma ex_spike_analyse_night:
  "analyse_night 0 (zip [0..<13] ex_spike_night) =
     Some \<lparr>n_night_date = 0, sleep_onset = 82800, sleep_offset = 88200, duration_min = 90,
           hr_nadir_bpm = Some (123 / 2), wake_episodes = 0, continuity_score = 1\<rparr>"
proof -
  have r1: "py_round1 90 = 90"
    using py_round_of_int [of 900] by (simp add: py_round1_def)
  have r2: "py_round1 (123 / 2) = 123 / 2"
    using py_round_of_int [of 615] by (simp add: py_round1_def)
  have r3: "continuity_of 0 90 = 1"
    using py_round_of_int [of 1000] by (simp add: continuity_of_def py_round3_def)
  show ?thesis
    unfolding analyse_night_def ex_spike_onset
    by (simp add: ex_spike_offset ex_spike_period ex_spike_nadir ex_spike_episodes r1 r2 r3
        del: zip_Cons_Cons)
qed

text \<open>
  C3 fails on the code where the night has a wake candidate but no sustained wake.  In a
  night with heart rate 60 from 23:00 to 01:00 except for one epoch of 75 at 00:30, no
  run of 5 consecutive epochs with heart rate >= 70 exists, so the claim puts the offset at
  the last epoch (01:00, 90000 s); the code keeps the initial \<open>sleep_offset_idx =
  wake_idx[0]\<close> and reports the offset at the isolated epoch (00:30, 88200 s) with a
  duration of 90 minutes.
\<close>

theorem C3_isolated_spike_ends_the_night:
  "analyse_sleep ex_spike_night =
     \<lparr>nights = [\<lparr>n_night_date = 0, sleep_onset = 82800, sleep_offset = 88200,
                  duration_min = 90, hr_nadir_bpm = Some (123 / 2), wake_episodes = 0,
                  continuity_score = 1\<rparr>],
      latest_night = Some \<lparr>n_night_date = 0, sleep_onset = 82800, sleep_offset = 88200,
                  duration_min = 90, hr_nadir_bpm = Some (123 / 2), wake_episodes = 0,
                  continuity_score = 1\<rparr>\<rparr> \<and>
   spec_offset (zip [0..<13] ex_spike_night) 82800 = 90000"
proof -
  have ne: "ex_spike_night \<noteq> []" by (simp add: ex_spike_night_def)
  show ?thesis
    unfolding analyse_sleep_def ex_spike_wear Let_def ex_spike_groups
    using ne
    by (simp add: List.map_filter_simps ex_spike_analyse_night ex_spike_spec_offset
        del: zip_Cons_Cons)
qed


text \<open>
  The example night of the specification does come out as stated: with heart rate below
  65 from 23:00 (82800 s) and at least 70 in every epoch from 06:00 (108000 s) to 06:05,
  the detector reports onset 23:00, offset 06:00 and a duration of 420 minutes, and the
  offset agrees with the specification's wording.
\<close>


lemma zip_upt_map: "zip xs (map f xs) = map (\<lambda>k. (k, f k)) xs"
  by (induction xs) auto

lemma filter_upt_ge: "c \<le> n \<Longrightarrow> filter (\<lambda>k. \<not> k < c) [0..<n] = [c..<n]"
proof (induction n)
  case 0
  then show ?case by simp
next
  case (Suc n)
  show ?case
  proof (cases "c \<le> n")
    case True
    then show ?thesis using Suc.IH by simp
  next
    case False
    then have "c = Suc n" using Suc.prems by simp
    moreover have "filter (\<lambda>k. \<not> k < Suc n) [0..<n] = []" by (simp add: filter_empty_conv)
    ultimately show ?thesis by simp
  qed
qed

lemma ex_full_rows:
  "zip [0..<length ex_full_night] ex_full_night = map (\<lambda>k. (k, ex_full_epoch k)) [0..<851]"
  by (simp add: ex_full_night_def zip_upt_map)

lemma find_onset_first:
  assumes "night_df = (i, e) # rest"
    and "hour_of (datetime_et e) \<ge> 21 \<or> hour_of (datetime_et e) \<le> 3"
    and "lt_opt (heart_rate_mean e) 65"
    and "\<not> list_ex (\<lambda>(i, e). cardio_RMSSD_ms e \<noteq> None) night_df"
  shows "find_onset night_df = Some (datetime_et e)"
  using assms(2,3) assms(4) unfolding assms(1) find_onset_def Let_def
  by simp

lemma ex_full_onset:
  "find_onset (map (\<lambda>k. (k, ex_full_epoch k)) [0..<851]) = Some 82800"
proof -
  have split: "map (\<lambda>k. (k, ex_full_epoch k)) [0..<851] =
      (0, ex_full_epoch 0) # map (\<lambda>k. (k, ex_full_epoch k)) [1..<851]"
    by (simp add: upt_rec [of 0])
  have norm: "\<not> list_ex (\<lambda>(i, e). cardio_RMSSD_ms e \<noteq> None)
      (map (\<lambda>k. (k, ex_full_epoch k)) [0..<851])"
    by (simp add: list_ex_iff ex_full_epoch_def ex_sleep_epoch_def)
  have "find_onset (map (\<lambda>k. (k, ex_full_epoch k)) [0..<851]) =
      Some (datetime_et (ex_full_epoch 0))"
    by (rule find_onset_first [OF split _ _ norm])
       (simp_all add: ex_full_epoch_def ex_sleep_epoch_def hour_of_def lt_opt_def)
  then show ?thesis by (simp add: ex_full_epoch_def ex_sleep_epoch_def)
qed

lemma ex_full_post:
  "filter (\<lambda>(i, e). datetime_et e \<ge> 82800) (map (\<lambda>k. (k, ex_full_epoch k)) [0..<851]) =
     map (\<lambda>k. (k, ex_full_epoch k)) [0..<851]"
  by (simp add: filter_id_conv ex_full_epoch_def ex_sleep_epoch_def)

lemma ex_full_wake:
  "filter (\<lambda>(i, e). ge_opt (heart_rate_mean e) 70) (map (\<lambda>k. (k, ex_full_epoch k)) [0..<851]) =
     map (\<lambda>k. (k, ex_full_epoch k)) [840..<851]"
proof -
  have "(\<lambda>(i, e). ge_opt (heart_rate_mean e) 70) \<circ> (\<lambda>k. (k, ex_full_epoch k)) =
      (\<lambda>k. \<not> k < 840)"
    by (auto simp: fun_eq_iff ex_full_epoch_def ex_sleep_epoch_def ge_opt_def)
  then show ?thesis
    by (simp add: filter_map filter_upt_ge)
qed

lemma ex_full_offset:
  "find_offset (map (\<lambda>k. (k, ex_full_epoch k)) [0..<851]) 82800 = 108000"
proof -
  have idx: "map fst (map (\<lambda>k. (k, ex_full_epoch k)) [840..<851]) = [840..<851]"
    by (simp add: comp_def)
  have loop: "wake_loop [840..<851] 1 1 = 0"
    by (simp add: upt_rec wake_loop.simps)
  have ne: "map (\<lambda>k. (k, ex_full_epoch k)) [840..<851] \<noteq> []" by simp
  have first: "map (\<lambda>k. (k, ex_full_epoch k)) [840..<851] ! 0 = (840, ex_full_epoch 840)"
    by (simp add: upt_rec [of 840])
  show ?thesis
    unfolding find_offset_def Let_def ex_full_post ex_full_wake
    using ne by (simp only: if_True idx loop first) (simp add: ex_full_epoch_def ex_sleep_epoch_def)
qed

lemma remdups_all_equal:
  assumes "xs \<noteq> []" and "\<forall>y \<in> set xs. y = c"
  shows "remdups xs = [c]"
  using assms
proof (induction xs)
  case Nil
  then show ?case by simp
next
  case (Cons a xs)
  have a: "a = c" using Cons.prems(2) by simp
  show ?case
  proof (cases "xs = []")
    case True
    then show ?thesis using a by simp
  next
    case False
    have all: "\<forall>y \<in> set xs. y = c" using Cons.prems(2) by simp
    have ih: "remdups xs = [c]" by (rule Cons.IH [OF False all])
    obtain b ys where "xs = b # ys" using False by (cases xs) auto
    then have "c \<in> set xs" using all by auto
    then show ?thesis using a ih by simp
  qed
qed

lemma groupby_single_key:
  assumes "rows \<noteq> []" and "\<forall>r \<in> set rows. key r = c"
  shows "groupby key rows = [(c, rows)]"
proof -
  have ne: "map key rows \<noteq> []" using assms(1) by simp
  have all: "\<forall>y \<in> set (map key rows). y = c" using assms(2) by simp
  have r: "remdups (map key rows) = [c]"
    by (rule remdups_all_equal [OF ne all])
  have f: "filter (\<lambda>r. key r = c) rows = rows"
    using assms(2) by (simp add: filter_id_conv)
  show ?thesis
    unfolding groupby_def r by (simp add: f)
qed

lemma ex_full_hour: "k < 851 \<Longrightarrow> date_of (datetime_et (ex_full_epoch k) - 64800) = 0"
  by (simp add: ex_full_epoch_def ex_sleep_epoch_def date_of_def)

lemma ex_full_groups:
  "groupby (\<lambda>(i, e). night_date_of e) (map (\<lambda>k. (k, ex_full_epoch k)) [0..<851]) =
     [(0, map (\<lambda>k. (k, ex_full_epoch k)) [0..<851])]"
proof (rule groupby_single_key)
  show "map (\<lambda>k. (k, ex_full_epoch k)) [0..<851] \<noteq> []" by simp
  show "\<forall>r \<in> set (map (\<lambda>k. (k, ex_full_epoch k)) [0..<851]).
      (case r of (i, e) \<Rightarrow> night_date_of e) = 0"
    by (simp add: night_date_of_def ex_full_hour)
qed


lemma ex_full_wear: "sort_key datetime (wear_on ex_full_night) = ex_full_night"
proof -
  have w: "wear_on ex_full_night = ex_full_night"
    by (simp add: wear_on_def ex_full_night_def ex_full_epoch_def ex_sleep_epoch_def
        filter_id_conv)
  have "sorted (map datetime ex_full_night)"
    unfolding ex_full_night_def
    by (simp add: sorted_map sorted_wrt_map ex_full_epoch_def ex_sleep_epoch_def)
  then show ?thesis by (simp add: w sort_key_id_if_sorted)
qed

lemma spec_offset_from_skip:
  "\<forall>(i, e) \<in> set pre. \<not> ge_opt (heart_rate_mean e) 70 \<Longrightarrow>
   spec_offset_from (pre @ rows) = spec_offset_from rows"
  by (induction pre) (auto simp: starts_wake_run_def)

lemma ex_full_spec_offset:
  "spec_offset (map (\<lambda>k. (k, ex_full_epoch k)) [0..<851]) 82800 = 108000"
proof -
  have split: "map (\<lambda>k. (k, ex_full_epoch k)) [0..<851] =
      map (\<lambda>k. (k, ex_full_epoch k)) [0..<840] @ map (\<lambda>k. (k, ex_full_epoch k)) [840..<851]"
  proof -
    have u: "[0..<851] = [0..<840] @ [840..<851]"
      using upt_add_eq_append [of 0 840 11] by simp
    show ?thesis by (simp only: u map_append)
  qed
  have pre: "\<forall>(i, e) \<in> set (map (\<lambda>k. (k, ex_full_epoch k)) [0..<840]).
      \<not> ge_opt (heart_rate_mean e) 70"
    by (auto simp: ex_full_epoch_def ex_sleep_epoch_def ge_opt_def)
  have run: "spec_offset_from (map (\<lambda>k. (k, ex_full_epoch k)) [840..<851]) = Some 108000"
    by (simp add: upt_rec starts_wake_run_def ex_full_epoch_def ex_sleep_epoch_def ge_opt_def)
  have "spec_offset_from (map (\<lambda>k. (k, ex_full_epoch k)) [0..<851]) = Some 108000"
    unfolding split using spec_offset_from_skip [OF pre] run by simp
  then show ?thesis
    unfolding spec_offset_def Let_def ex_full_post by simp
qed

lemma ex_full_analyse_night:
  "\<exists>n. analyse_night 0 (map (\<lambda>k. (k, ex_full_epoch k)) [0..<851]) = Some n \<and>
       sleep_onset n = 82800 \<and> sleep_offset n = 108000 \<and> duration_min n = 420"
proof -
  have r: "py_round1 420 = 420"
    using py_round_of_int [of 4200] by (simp add: py_round1_def)
  show ?thesis
    unfolding analyse_night_def ex_full_onset
    by (simp add: ex_full_offset r Let_def)
qed

lemma full_night_example:
  "\<exists>n. nights (analyse_sleep ex_full_night) = [n] \<and>
       sleep_onset n = 82800 \<and> sleep_offset n = 108000 \<and> duration_min n = 420"
proof -
  have ne: "ex_full_night \<noteq> []" by (simp add: ex_full_night_def)
  obtain n where n: "analyse_night 0 (map (\<lambda>k. (k, ex_full_epoch k)) [0..<851]) = Some n"
    and p: "sleep_onset n = 82800 \<and> sleep_offset n = 108000 \<and> duration_min n = 420"
    using ex_full_analyse_night by blast
  have "nights (analyse_sleep ex_full_night) = [n]"
    unfolding analyse_sleep_def ex_full_wear Let_def ex_full_rows ex_full_groups
    using ne by (simp add: List.map_filter_simps n)
  with p show ?thesis by blast
qed



text \<open>
  Where no epoch from the onset on has a heart rate of at least 70, code and specification
  agree: the offset is the last available epoch.
\<close>

lemma find_offset_without_wake_candidate:
  assumes "\<forall>(i, e) \<in> set night_df. datetime_et e \<ge> onset \<longrightarrow> \<not> ge_opt (heart_rate_mean e) 70"
  shows "find_offset night_df onset = datetime_et (snd (last (filter (\<lambda>(i, e). datetime_et e \<ge> onset) night_df)))"
    and "spec_offset night_df onset = find_offset night_df onset"
proof -
  let ?post = "filter (\<lambda>(i, e). datetime_et e \<ge> onset) night_df"
  have none: "\<forall>(i, e) \<in> set ?post. \<not> ge_opt (heart_rate_mean e) 70"
    using assms by auto
  then have wc: "filter (\<lambda>(i, e). ge_opt (heart_rate_mean e) 70) ?post = []"
    by (auto simp: filter_empty_conv)
  show off: "find_offset night_df onset = datetime_et (snd (last ?post))"
    unfolding find_offset_def Let_def wc by simp
  have "spec_offset_from (?post @ []) = spec_offset_from []"
    by (rule spec_offset_from_skip [OF none])
  then have "spec_offset_from ?post = None" by simp
  then show "spec_offset night_df onset = find_offset night_df onset"
    unfolding off spec_offset_def Let_def by simp
qed


text \<open>
  What the loop computes in general: the position of the first sustained wake among the
  wake candidates when there is one, and position 0, the first wake candidate, when there
  is none.
\<close>

lemma wake_loop_char:
  assumes "1 \<le> c" and "c \<le> i" and "c \<le> 4"
    and "\<forall>j. i - c < j \<and> j < i \<longrightarrow> ws ! j = ws ! (j - 1) + 1"
    and "\<forall>q. run_of_five ws q \<longrightarrow> i - c \<le> q"
  shows "if \<exists>q. run_of_five ws q
         then run_of_five ws (wake_loop ws i c) \<and> (\<forall>q. run_of_five ws q \<longrightarrow> wake_loop ws i c \<le> q)
         else wake_loop ws i c = 0"
  using assms
proof (induction ws i c rule: wake_loop.induct)
  case (1 ws i c)
  note prems = "1.prems"
  show ?case
  proof (cases "i < length ws")
    case False
    have none: "\<not> (\<exists>q. run_of_five ws q)"
    proof
      assume "\<exists>q. run_of_five ws q"
      then obtain q where q: "run_of_five ws q" by blast
      then have "i - c \<le> q" using prems(5) by blast
      moreover have "q + 4 < length ws" using q by (simp add: run_of_five_def)
      ultimately show False using False prems(2,3) by linarith
    qed
    have "wake_loop ws i c = 0"
      using False by (subst wake_loop.simps) simp
    with none show ?thesis by simp
  next
    case True
    show ?thesis
    proof (cases "ws ! i = ws ! (i - 1) + 1")
      case adj: True
      show ?thesis
      proof (cases "c + 1 \<ge> 5")
        case five: True
        then have c4: "c = 4" using prems(3) by simp
        have r: "wake_loop ws i c = i - 4"
          using True adj five c4 by (subst wake_loop.simps) simp
        have i4: "4 \<le> i" using prems(2) c4 by simp
        have run: "run_of_five ws (i - 4)"
          unfolding run_of_five_def
        proof (intro conjI ballI)
          show "i - 4 + 4 < length ws" using True i4 by simp
        next
          fix j assume "j \<in> {i - 4 + 1..i - 4 + 4}"
          then have j: "i - 4 < j" "j \<le> i" using i4 by auto
          show "ws ! j = ws ! (j - 1) + 1"
          proof (cases "j = i")
            case True
            then show ?thesis using adj by simp
          next
            case False
            then have "i - c < j \<and> j < i" using j c4 by simp
            then show ?thesis using prems(4) by blast
          qed
        qed
        have least: "\<forall>q. run_of_five ws q \<longrightarrow> i - 4 \<le> q"
          using prems(5) c4 by simp
        show ?thesis using run least r by auto
      next
        case notfive: False
        have r: "wake_loop ws i c = wake_loop ws (i + 1) (c + 1)"
          using True adj notfive by (subst wake_loop.simps) simp
        have p4: "\<forall>j. i + 1 - (c + 1) < j \<and> j < i + 1 \<longrightarrow> ws ! j = ws ! (j - 1) + 1"
        proof (intro allI impI)
          fix j assume a: "i + 1 - (c + 1) < j \<and> j < i + 1"
          show "ws ! j = ws ! (j - 1) + 1"
          proof (cases "j = i")
            case True
            then show ?thesis using adj by simp
          next
            case False
            then have "i - c < j \<and> j < i" using a by simp
            then show ?thesis using prems(4) by blast
          qed
        qed
        have p5: "\<forall>q. run_of_five ws q \<longrightarrow> i + 1 - (c + 1) \<le> q"
          using prems(5) by simp
        have "if \<exists>q. run_of_five ws q
              then run_of_five ws (wake_loop ws (i + 1) (c + 1)) \<and>
                   (\<forall>q. run_of_five ws q \<longrightarrow> wake_loop ws (i + 1) (c + 1) \<le> q)
              else wake_loop ws (i + 1) (c + 1) = 0"
        proof (rule "1.IH"(1) [OF True adj notfive])
          show "1 \<le> c + 1" by simp
          show "c + 1 \<le> i + 1" using prems(2) by simp
          show "c + 1 \<le> 4" using notfive by simp
          show "\<forall>j. i + 1 - (c + 1) < j \<and> j < i + 1 \<longrightarrow> ws ! j = ws ! (j - 1) + 1" by (rule p4)
          show "\<forall>q. run_of_five ws q \<longrightarrow> i + 1 - (c + 1) \<le> q" by (rule p5)
        qed
        then show ?thesis unfolding r .
      qed
    next
      case nadj: False
      have r: "wake_loop ws i c = wake_loop ws (i + 1) 1"
        using True nadj by (subst wake_loop.simps) simp
      have p5: "\<forall>q. run_of_five ws q \<longrightarrow> i + 1 - 1 \<le> q"
      proof (intro allI impI)
        fix q assume q: "run_of_five ws q"
        then have lo: "i - c \<le> q" using prems(5) by blast
        show "i + 1 - 1 \<le> q"
        proof (rule ccontr)
          assume "\<not> i + 1 - 1 \<le> q"
          then have lt: "q < i" by simp
          have "i \<le> q + 4" using lo prems(3) by linarith
          then have "i \<in> {q + 1..q + 4}" using lt by simp
          then have "ws ! i = ws ! (i - 1) + 1" using q by (simp add: run_of_five_def)
          then show False using nadj by simp
        qed
      qed
      have "if \<exists>q. run_of_five ws q
            then run_of_five ws (wake_loop ws (i + 1) 1) \<and>
                 (\<forall>q. run_of_five ws q \<longrightarrow> wake_loop ws (i + 1) 1 \<le> q)
            else wake_loop ws (i + 1) 1 = 0"
      proof (rule "1.IH"(2) [OF True nadj])
        show "(1::nat) \<le> 1" by simp
        show "1 \<le> i + 1" by simp
        show "(1::nat) \<le> 4" by simp
        show "\<forall>j. i + 1 - 1 < j \<and> j < i + 1 \<longrightarrow> ws ! j = ws ! (j - 1) + 1" by simp
        show "\<forall>q. run_of_five ws q \<longrightarrow> i + 1 - 1 \<le> q" by (rule p5)
      qed
      then show ?thesis unfolding r .
    qed
  qed
qed


lemma wake_loop_first_run:
  "if \<exists>q. run_of_five ws q
   then run_of_five ws (wake_loop ws 1 1) \<and> (\<forall>q. run_of_five ws q \<longrightarrow> wake_loop ws 1 1 \<le> q)
   else wake_loop ws 1 1 = 0"
proof (rule wake_loop_char)
  show "\<forall>j. 1 - 1 < j \<and> j < 1 \<longrightarrow> ws ! j = ws ! (j - 1) + 1" by auto
qed simp_all

lemma wake_loop_finds_run:
  assumes "run_of_five ws q"
  shows "run_of_five ws (wake_loop ws 1 1)" and "wake_loop ws 1 1 \<le> q"
proof -
  have ex: "\<exists>q. run_of_five ws q" using assms by blast
  have "run_of_five ws (wake_loop ws 1 1) \<and> (\<forall>q. run_of_five ws q \<longrightarrow> wake_loop ws 1 1 \<le> q)"
    using wake_loop_first_run [of ws] ex by (auto split: if_splits)
  then show "run_of_five ws (wake_loop ws 1 1)" and "wake_loop ws 1 1 \<le> q"
    using assms by blast+
qed

lemma wake_loop_without_run:
  assumes "\<not> (\<exists>q. run_of_five ws q)"
  shows "wake_loop ws 1 1 = 0"
  using wake_loop_first_run [of ws] assms by (auto split: if_splits)

text \<open>
  Hence the offset of the code whenever some epoch from the onset on has a heart rate of at
  least 70: the first epoch of the first sustained wake, and without a sustained wake the
  first wake candidate, not the last available epoch.
\<close>

lemma find_offset_with_wake_candidates:
  assumes "wc = filter (\<lambda>(i, e). ge_opt (heart_rate_mean e) 70)
                  (filter (\<lambda>(i, e). datetime_et e \<ge> onset) night_df)"
    and "wc \<noteq> []"
  shows "(\<exists>q. run_of_five (map fst wc) q) \<longrightarrow>
           (\<exists>p. run_of_five (map fst wc) p \<and> (\<forall>q. run_of_five (map fst wc) q \<longrightarrow> p \<le> q) \<and>
                find_offset night_df onset = datetime_et (snd (wc ! p)))"
    and "\<not> (\<exists>q. run_of_five (map fst wc) q) \<longrightarrow>
           find_offset night_df onset = datetime_et (snd (hd wc))"
proof -
  let ?r = "wake_loop (map fst wc) 1 1"
  have off: "find_offset night_df onset = datetime_et (snd (wc ! ?r))"
    using assms(2) unfolding find_offset_def Let_def assms(1) [symmetric] by simp
  show "(\<exists>q. run_of_five (map fst wc) q) \<longrightarrow>
           (\<exists>p. run_of_five (map fst wc) p \<and> (\<forall>q. run_of_five (map fst wc) q \<longrightarrow> p \<le> q) \<and>
                find_offset night_df onset = datetime_et (snd (wc ! p)))"
  proof
    assume "\<exists>q. run_of_five (map fst wc) q"
    then obtain q where q: "run_of_five (map fst wc) q" by blast
    have a: "run_of_five (map fst wc) ?r" by (rule wake_loop_finds_run(1) [OF q])
    have b: "\<forall>q. run_of_five (map fst wc) q \<longrightarrow> ?r \<le> q"
      using wake_loop_finds_run(2) by blast
    from a b off show "\<exists>p. run_of_five (map fst wc) p \<and>
        (\<forall>q. run_of_five (map fst wc) q \<longrightarrow> p \<le> q) \<and>
        find_offset night_df onset = datetime_et (snd (wc ! p))" by blast
  qed
  show "\<not> (\<exists>q. run_of_five (map fst wc) q) \<longrightarrow>
           find_offset night_df onset = datetime_et (snd (hd wc))"
  proof
    assume "\<not> (\<exists>q. run_of_five (map fst wc) q)"
    then have "?r = 0" by (rule wake_loop_without_run)
    then show "find_offset night_df onset = datetime_et (snd (hd wc))"
      using off assms(2) by (simp add: hd_conv_nth)
  qed
qed

end
